theory Spec2Isabelle
  imports
    Complex_Main
    "HOL-Library.Product_Lexorder"
    "HOL-Library.List_Lexorder"
    "HOL-Library.Char_ord"
    "HOL-Library.AList"
    "HOL-Library.Multiset"
begin

section \<open>Values, errors and the environment\<close>

text \<open>
  The kinds of exception that the modelled code raises or lets through. A
  \<open>ValueError\<close> carries the constant part of its message; interpolated parts
  (\<open>'%s Field ...' % field\<close>, f-strings) are left out.
\<close>

datatype error = ValueError string | KeyError | TypeError | IndexError | InvalidIndexError

text \<open>
  A naive \<open>datetime\<close>: year, month, day, hour, minute, second, microsecond. Python
  compares two naive datetimes field by field in this order, which is the lexicographic
  order of the tuple.
\<close>

type_synonym datetime = "nat \<times> nat \<times> nat \<times> nat \<times> nat \<times> nat \<times> nat"

text \<open>
  What a caller hands over as a date: a \<open>datetime\<close>, a \<open>str\<close>, or an \<open>int\<close>
  (a compact date such as \<open>20210131\<close>, or a POSIX timestamp). Floats are not modelled as
  dates.
\<close>

datatype pydate = is_DT: DT (un_DT: datetime) | is_Str: Str (un_Str: string) | is_Num: Num (un_Num: int)

text \<open>
  What the code takes from outside: the clock (\<open>datetime.today()\<close>), the local-time
  conversion \<open>datetime.fromtimestamp(int(date))\<close>, which depends on the time zone of
  the process, and the order in which \<open>list.sort()\<close> leaves a list when one of its
  comparisons raises: some permutation of the list, which depends on how far the sort
  had come.
\<close>

record world =
  today :: datetime
  fromtimestamp_int :: "pydate \<Rightarrow> error + datetime"
  sort_leaves :: "pydate list \<Rightarrow> pydate list"

section \<open>utilities/utils.py: date coercion\<close>

subsection \<open>\<open>datetime.strptime\<close> for the directives the module uses\<close>

text \<open>
  A format is a list of directives: \<open>%Y\<close>, \<open>%m\<close>, \<open>%d\<close> and literal separator
  characters (neither letters nor white space), each directive at most once.
  \<open>strptime\<close> turns the format into a regular expression,
  \<open>%Y\<close> into \<open>\d\d\d\d\<close>, \<open>%m\<close> into \<open>1[0-2]|0[1-9]|[1-9]\<close>,
  \<open>%d\<close> into \<open>3[01]|[12]\d|0[1-9]|[1-9]| [1-9]\<close>, matches it at the start of
  the string with backtracking, refuses unconverted trailing data, and builds the date,
  which fails for year 0 and for a day the month does not have. A string is a list of
  8-bit characters, its length their number.
\<close>

datatype directive = DirY | Dirm | Dird | Lit char

definition is_digit :: "char \<Rightarrow> bool" where
  "is_digit c = (c \<in> set ''0123456789'')"

definition is_digit19 :: "char \<Rightarrow> bool" where
  "is_digit19 c = (c \<in> set ''123456789'')"

definition digit_val :: "char \<Rightarrow> nat" where
  "digit_val c = of_char c - 48"

text \<open>Each matcher lists the ways its pattern matches a prefix, first alternative first.\<close>

fun match_Y :: "string \<Rightarrow> (nat \<times> string) list" where
  "match_Y (a # b # c # d # r) =
     (if is_digit a \<and> is_digit b \<and> is_digit c \<and> is_digit d
      then [(1000 * digit_val a + 100 * digit_val b + 10 * digit_val c + digit_val d, r)]
      else [])"
| "match_Y _ = []"

definition two_chars :: "(char \<Rightarrow> bool) \<Rightarrow> (char \<Rightarrow> bool) \<Rightarrow> string \<Rightarrow> (nat \<times> string) list" where
  "two_chars p q s =
     (case s of
        a # b # r \<Rightarrow>
          if p a \<and> q b
          then [((if is_digit a then 10 * digit_val a else 0) + digit_val b, r)] else []
      | _ \<Rightarrow> [])"

definition one_char :: "(char \<Rightarrow> bool) \<Rightarrow> string \<Rightarrow> (nat \<times> string) list" where
  "one_char p s = (case s of a # r \<Rightarrow> if p a then [(digit_val a, r)] else [] | _ \<Rightarrow> [])"

definition match_m :: "string \<Rightarrow> (nat \<times> string) list" where
  "match_m s =
     two_chars (\<lambda>c. c = CHR ''1'') (\<lambda>c. c \<in> set ''012'') s
     @ two_chars (\<lambda>c. c = CHR ''0'') is_digit19 s
     @ one_char is_digit19 s"

definition match_d :: "string \<Rightarrow> (nat \<times> string) list" where
  "match_d s =
     two_chars (\<lambda>c. c = CHR ''3'') (\<lambda>c. c \<in> set ''01'') s
     @ two_chars (\<lambda>c. c \<in> set ''12'') is_digit s
     @ two_chars (\<lambda>c. c = CHR ''0'') is_digit19 s
     @ one_char is_digit19 s
     @ two_chars (\<lambda>c. c = CHR '' '') is_digit19 s"

text \<open>The fields found so far: year, month, day, which start as 1900, 1, 1.\<close>

type_synonym found = "nat \<times> nat \<times> nat"

fun re_match :: "directive list \<Rightarrow> string \<Rightarrow> found \<Rightarrow> (found \<times> string) list" where
  "re_match [] s fd = [(fd, s)]"
| "re_match (DirY # ds) s (y, m, d) =
     concat (map (\<lambda>(v, r). re_match ds r (v, m, d)) (match_Y s))"
| "re_match (Dirm # ds) s (y, m, d) =
     concat (map (\<lambda>(v, r). re_match ds r (y, v, d)) (match_m s))"
| "re_match (Dird # ds) s (y, m, d) =
     concat (map (\<lambda>(v, r). re_match ds r (y, m, v)) (match_d s))"
| "re_match (Lit c # ds) s fd =
     (case s of x # r \<Rightarrow> if x = c then re_match ds r fd else [] | [] \<Rightarrow> [])"

definition is_leap :: "nat \<Rightarrow> bool" where
  "is_leap y = (y mod 4 = 0 \<and> (y mod 100 \<noteq> 0 \<or> y mod 400 = 0))"

definition days_in_month :: "nat \<Rightarrow> nat \<Rightarrow> nat" where
  "days_in_month y m =
     (if m = 2 then (if is_leap y then 29 else 28)
      else if m = 4 \<or> m = 6 \<or> m = 9 \<or> m = 11 then 30 else 31)"

definition strptime :: "string \<Rightarrow> directive list \<Rightarrow> error + datetime" where
  "strptime s fmt =
     (case re_match fmt s (1900, 1, 1) of
        [] \<Rightarrow> Inl (ValueError ''time data does not match format'')
      | ((y, m, d), rest) # _ \<Rightarrow>
          if rest \<noteq> [] then Inl (ValueError ''unconverted data remains'')
          else if y < 1 then Inl (ValueError ''year 0 is out of range'')
          else if days_in_month y m < d
          then Inl (ValueError ''day is out of range for month'')
          else Inr (y, m, d, 0, 0, 0, 0))"

text \<open>
  A calendar date at midnight, with the year in the range of \<open>datetime\<close>; and the
  ranges of the fields that the patterns of the directives can match.
\<close>

definition midnight_date :: "datetime \<Rightarrow> bool" where
  "midnight_date dt =
     (case dt of (y, m, d, rest) \<Rightarrow>
        1 \<le> y \<and> y \<le> 9999 \<and> 1 \<le> m \<and> m \<le> 12 \<and> 1 \<le> d \<and> d \<le> days_in_month y m
        \<and> rest = (0, 0, 0, 0))"

definition in_range :: "found \<Rightarrow> bool" where
  "in_range fd = (case fd of (y, m, d) \<Rightarrow> y \<le> 9999 \<and> 1 \<le> m \<and> m \<le> 12 \<and> 1 \<le> d \<and> d \<le> 31)"

subsection \<open>\<open>str\<close> of an \<open>int\<close>\<close>

definition digit_char :: "nat \<Rightarrow> char" where
  "digit_char n = ''0123456789'' ! (n mod 10)"

fun str_nat :: "nat \<Rightarrow> string" where
  "str_nat n = (if n < 10 then [digit_char n] else str_nat (n div 10) @ [digit_char n])"

declare str_nat.simps [simp del]

definition str_int :: "int \<Rightarrow> string" where
  "str_int i = (if i < 0 then CHR ''-'' # str_nat (nat (- i)) else str_nat (nat i))"

subsection \<open>\<open>create_datetime\<close>\<close>

text \<open>The four formats of the source: \<open>'%Y-%m-%d'\<close>, \<open>'%m/%d/%Y'\<close>, \<open>'%Y%m%d'\<close>, \<open>'%Y%m'\<close>.\<close>

definition fmt_Y_m_d :: "directive list" where
  "fmt_Y_m_d = [DirY, Lit (CHR ''-''), Dirm, Lit (CHR ''-''), Dird]"

definition fmt_mdY_slash :: "directive list" where
  "fmt_mdY_slash = [Dirm, Lit (CHR ''/''), Dird, Lit (CHR ''/''), DirY]"

definition fmt_Ymd :: "directive list" where
  "fmt_Ymd = [DirY, Dirm, Dird]"

definition fmt_Ym :: "directive list" where
  "fmt_Ym = [DirY, Dirm]"

text \<open>
  The \<open>try\<close> block of \<open>create_datetime\<close> (lines 177 to 193), on the string the date
  has become. \<open>re.search('-', date)\<close> holds when the character occurs in the string.
  The handler re-raises, so every \<open>ValueError\<close> is the result.
\<close>

definition parse_date_str :: "string \<Rightarrow> directive list option \<Rightarrow> error + datetime" where
  "parse_date_str s input_fmt =
     (case input_fmt of
        Some f \<Rightarrow> strptime s f
      | None \<Rightarrow>
          if CHR ''-'' \<in> set s then strptime s fmt_Y_m_d
          else if CHR ''/'' \<in> set s then strptime s fmt_mdY_slash
          else if length s = 8 then strptime s fmt_Ymd
          else if length s = 6 then strptime s fmt_Ym
          else Inl (ValueError ''Cannot convert date_str - format not recognized!''))"

text \<open>
  \<open>create_datetime(date, input_fmt=None, from_tstamp=False)\<close>. The \<open>lru_cache\<close>
  decorator memoises a function of its arguments alone and is not modelled.
\<close>

definition create_datetime ::
  "world \<Rightarrow> pydate \<Rightarrow> directive list option \<Rightarrow> bool \<Rightarrow> error + datetime" where
  "create_datetime w date input_fmt from_tstamp =
     (case date of
        DT d \<Rightarrow> Inr d
      | Str s \<Rightarrow>
          if from_tstamp then fromtimestamp_int w date else parse_date_str s input_fmt
      | Num n \<Rightarrow>
          if from_tstamp then fromtimestamp_int w date
          else parse_date_str (str_int n) input_fmt)"

section \<open>Tables\<close>

text \<open>
  Python values that occur as cells, labels and metadata. \<open>PFloat\<close> carries the exact
  value of a finite float, \<open>PNaN\<close> is the float not-a-number, \<open>PSeries\<close> a sequence of
  values.
\<close>

datatype pyval =
    PNone
  | PBool bool
  | PInt int
  | PFloat rat
  | PNaN
  | PStr string
  | PDict "(pyval \<times> pyval) list"
  | PSeries "pyval list"

datatype pytype = NoneType | TBool | TInt | TFloat | TStr | TDict | TSeries

fun type_of :: "pyval \<Rightarrow> pytype" where
  "type_of PNone = NoneType"
| "type_of (PBool _) = TBool"
| "type_of (PInt _) = TInt"
| "type_of (PFloat _) = TFloat"
| "type_of PNaN = TFloat"
| "type_of (PStr _) = TStr"
| "type_of (PDict _) = TDict"
| "type_of (PSeries _) = TSeries"

text \<open>
  Python's \<open>==\<close> on these values: booleans, ints and floats are compared by their
  numeric value (\<open>1 == 1.0 == True\<close>), NaN equals nothing, and other values are equal
  when they are the same. A \<open>dict\<close>, a \<open>tuple\<close> and the index of a table find a key
  by it: \<open>x in xs\<close>, \<open>d[k]\<close> and \<open>d[k] = v\<close>, which keeps the key that is there.
\<close>

fun num_val :: "pyval \<Rightarrow> rat option" where
  "num_val (PBool b) = Some (if b then 1 else 0)"
| "num_val (PInt i) = Some (of_int i)"
| "num_val (PFloat r) = Some r"
| "num_val _ = None"

definition py_eq :: "pyval \<Rightarrow> pyval \<Rightarrow> bool" where
  "py_eq a b =
     (case (num_val a, num_val b) of
        (Some x, Some y) \<Rightarrow> x = y
      | (None, None) \<Rightarrow> a = b \<and> a \<noteq> PNaN
      | _ \<Rightarrow> False)"

definition py_mem :: "pyval \<Rightarrow> pyval list \<Rightarrow> bool" where
  "py_mem x xs = list_ex (\<lambda>y. py_eq y x) xs"

fun py_lookup :: "(pyval \<times> 'v) list \<Rightarrow> pyval \<Rightarrow> 'v option" where
  "py_lookup [] k = None"
| "py_lookup ((k', v) # kvs) k = (if py_eq k' k then Some v else py_lookup kvs k)"

fun dict_set :: "pyval \<Rightarrow> 'v \<Rightarrow> (pyval \<times> 'v) list \<Rightarrow> (pyval \<times> 'v) list" where
  "dict_set k v [] = [(k, v)]"
| "dict_set k v ((k', v') # kvs) =
     (if py_eq k' k then (k', v) # kvs else (k', v') # dict_set k v kvs)"

fun unique_labels :: "pyval list \<Rightarrow> bool" where
  "unique_labels [] = True"
| "unique_labels (l # ls) = (\<not> py_mem l ls \<and> unique_labels ls)"

text \<open>
  Ordinary labels are ints, floats and strings; plain labels are ints and strings, on
  which \<open>==\<close> is equality. (pandas refuses a boolean key on an index that is not
  boolean and takes \<open>None\<close> and NaN keys for one another; such labels are left out of
  what is proved about lookups by label.)
\<close>

fun ordinary :: "pyval \<Rightarrow> bool" where
  "ordinary (PInt _) = True"
| "ordinary (PFloat _) = True"
| "ordinary (PStr _) = True"
| "ordinary _ = False"

fun plain :: "pyval \<Rightarrow> bool" where
  "plain (PInt _) = True"
| "plain (PStr _) = True"
| "plain _ = False"

text \<open>The dtype of a column, as far as the six tests of \<open>pandas.api.types\<close> tell dtypes apart.\<close>

datatype dtype =
    Int64 | Float64 | Complex128 | Bool | Datetime64 | Timedelta64
  | Object | StringDtype | Category | Interval | Period

text \<open>
  A \<open>DataFrame\<close> with a single-level row index: the name of the index (\<open>PNone\<close> when
  it has none), the row labels, and the columns in order, each with its label, dtype and
  cells (one per row). Column labels are taken to be distinct; a lookup by label finds the
  first column whose label equals it. A \<open>MultiIndex\<close> is not modelled.
\<close>

record DataFrame =
  index_name :: pyval
  index :: "pyval list"
  columns :: "(pyval \<times> dtype \<times> pyval list) list"

text \<open>
  Frames are objects: a \<open>DatedDataFrame\<close> and the stores hold references to them, and
  the heap maps a reference to the frame it denotes.
\<close>

type_synonym ref = nat

type_synonym heap = "ref \<Rightarrow> DataFrame"

section \<open>core/base.py: DataFrameCollection\<close>

datatype DatedDataFrame = DatedDataFrame (date: pydate) (data_frame: ref) (DATA_ID: pyval)

text \<open>
  The attributes of a \<open>DataFrameCollection\<close>. \<open>data\<close> is a \<open>dict\<close>, kept as an
  association list in insertion order: assigning to a key that is present replaces its
  value in place, a new key goes to the end (\<open>AList.update\<close>).
\<close>

record DataFrameCollection =
  coll_DATA_ID :: pyval
  data :: "(pydate \<times> ref) list"
  data_dates :: "pydate list"

text \<open>
  \<open>list.sort()\<close> on a list of dates. Python orders two datetimes, two strings or two
  ints, and raises \<open>TypeError\<close> when it compares values of two different kinds, which
  every sort of a list that holds two kinds must do.
\<close>

definition list_sort :: "pydate list \<Rightarrow> error + pydate list" where
  "list_sort ks =
     (if list_all is_DT ks then Inr (map DT (sort (map un_DT ks)))
      else if list_all is_Str ks then Inr (map Str (sort (map un_Str ks)))
      else if list_all is_Num ks then Inr (map Num (sort (map un_Num ks)))
      else Inl TypeError)"

text \<open>
  \<open>add_data\<close> returns the object as the call leaves it and the exception, if one is
  raised. The date of the \<open>DatedDataFrame\<close> is the key as it stands. Lines 66 and 67
  have assigned the new mapping and the list of its keys when the sort of line 68 raises:
  the object then holds the new key, and its \<open>data_dates\<close> are the keys in the order
  in which the failed sort left them.
\<close>

definition add_data ::
  "world \<Rightarrow> 'a DataFrameCollection_scheme \<Rightarrow> DatedDataFrame \<Rightarrow>
   'a DataFrameCollection_scheme \<times> error option" where
  "add_data w self dated_df =
     (let data' = AList.update (date dated_df) (data_frame dated_df) (data self) in
      case list_sort (map fst data') of
        Inr ks \<Rightarrow> (self\<lparr>data := data', data_dates := ks\<rparr>, None)
      | Inl e \<Rightarrow>
          (self\<lparr>data := data', data_dates := sort_leaves w (map fst data')\<rparr>, Some e))"

text \<open>A constructor that raises returns no object.\<close>

definition DataFrameCollection_init :: "world \<Rightarrow> DatedDataFrame \<Rightarrow> error + DataFrameCollection" where
  "DataFrameCollection_init w dated_df =
     (case add_data w \<lparr>coll_DATA_ID = DATA_ID dated_df, data = [], data_dates = []\<rparr> dated_df of
        (self, None) \<Rightarrow> Inr self
      | (self, Some e) \<Rightarrow> Inl e)"

text \<open>
  \<open>bisect.bisect_right(a, x)\<close> is the loop below from \<open>lo = 0\<close>, \<open>hi = len(a)\<close>.
  \<open>x\<close> is a datetime; the comparison \<open>x < a[mid]\<close> raises \<open>TypeError\<close> when
  \<open>a[mid]\<close> is not one.
\<close>

function bisect_right :: "pydate list \<Rightarrow> datetime \<Rightarrow> nat \<Rightarrow> nat \<Rightarrow> error + nat" where
  "bisect_right a x lo hi =
     (if lo < hi then
        (case a ! ((lo + hi) div 2) of
           DT y \<Rightarrow>
             if x < y then bisect_right a x lo ((lo + hi) div 2)
             else bisect_right a x ((lo + hi) div 2 + 1) hi
         | _ \<Rightarrow> Inl TypeError)
      else Inr lo)"
  by pat_completeness auto
termination
  by (relation "measure (\<lambda>(a, x, lo, hi). hi - lo)") auto

declare bisect_right.simps [simp del]

definition get_last_data_date ::
  "world \<Rightarrow> 'a DataFrameCollection_scheme \<Rightarrow> pydate \<Rightarrow> error + pydate" where
  "get_last_data_date w self date0 =
     (case create_datetime w date0 None False of
        Inl e \<Rightarrow> Inl e
      | Inr dt \<Rightarrow>
          (case map_of (data self) (DT dt) of
             Some result \<Rightarrow> Inr (DT dt)
           | None \<Rightarrow>
               (case bisect_right (data_dates self) dt 0 (length (data_dates self)) of
                  Inl e \<Rightarrow> Inl e
                | Inr i \<Rightarrow>
                    if i > 0 then Inr (data_dates self ! (i - 1))
                    else Inl (ValueError ''No Earlier Data Available!''))))"

text \<open>\<open>get_current_date(dt=True)\<close>: today at midnight.\<close>

definition get_current_date_dt :: "world \<Rightarrow> datetime" where
  "get_current_date_dt w = (case today w of (y, m, d, _) \<Rightarrow> (y, m, d, 0, 0, 0, 0))"

definition get_latest_data ::
  "world \<Rightarrow> 'a DataFrameCollection_scheme \<Rightarrow> pydate option \<Rightarrow> error + ref" where
  "get_latest_data w self date0 =
     (let date1 = (case date0 of None \<Rightarrow> DT (get_current_date_dt w) | Some d \<Rightarrow> d) in
      case get_last_data_date w self date1 of
        Inl e \<Rightarrow> Inl e
      | Inr k \<Rightarrow> (case map_of (data self) k of None \<Rightarrow> Inl KeyError | Some r \<Rightarrow> Inr r))"

text \<open>
  What the methods rely on: the date sequence is strictly ascending (sorted, no
  duplicate), holds exactly the keys of the mapping, and the mapping, being a \<open>dict\<close>,
  has each key once. \<open>key_lt\<close> is Python's \<open><\<close> on two dates of one kind.
\<close>

definition key_lt :: "pydate \<Rightarrow> pydate \<Rightarrow> bool" where
  "key_lt a b =
     (case (a, b) of
        (DT x, DT y) \<Rightarrow> x < y
      | (Str x, Str y) \<Rightarrow> x < y
      | (Num x, Num y) \<Rightarrow> x < y
      | _ \<Rightarrow> False)"

definition dates_consistent :: "'a DataFrameCollection_scheme \<Rightarrow> bool" where
  "dates_consistent self =
     (sorted_wrt key_lt (data_dates self)
      \<and> set (data_dates self) = set (map fst (data self))
      \<and> distinct (map fst (data self)))"

text \<open>Two dates are of one kind when Python can order them.\<close>

definition same_kind :: "pydate \<Rightarrow> pydate \<Rightarrow> bool" where
  "same_kind a b = (is_DT a \<and> is_DT b \<or> is_Str a \<and> is_Str b \<or> is_Num a \<and> is_Num b)"

section \<open>core/base.py: SecurityLevelData\<close>

datatype DataFrameField = DataFrameField (NAME: pyval) (UNIT: pyval) (DEF_VAL: pyval)

datatype DataFrameSchema =
  DataFrameSchema (INDEX_LABEL: pyval) (FIELDS: "(pyval \<times> DataFrameField) list")

record SecurityLevelData = DataFrameCollection +
  schema :: DataFrameSchema

text \<open>Dictionaries as association lists: \<open>d.get(k)\<close>, \<open>d.update(other)\<close>, \<open>{k: g(k) for k in ks}\<close>.\<close>

definition dict_get :: "(pyval \<times> pyval) list \<Rightarrow> pyval \<Rightarrow> pyval" where
  "dict_get d k = (case py_lookup d k of None \<Rightarrow> PNone | Some v \<Rightarrow> v)"

definition dict_update :: "(pyval \<times> 'v) list \<Rightarrow> (pyval \<times> 'v) list \<Rightarrow> (pyval \<times> 'v) list" where
  "dict_update d other = fold (\<lambda>(k, v). dict_set k v) other d"

definition dict_comp :: "(pyval \<Rightarrow> 'v) \<Rightarrow> pyval list \<Rightarrow> (pyval \<times> 'v) list" where
  "dict_comp g ks = fold (\<lambda>k. dict_set k (g k)) ks []"

text \<open>
  Lines 139 to 153 of \<open>__init__\<close>: the units and default values per field, from the
  arguments \<open>unit\<close> and \<open>def_val\<close>.
\<close>

definition field_metadata ::
  "pyval list \<Rightarrow> pyval \<Rightarrow> pyval \<Rightarrow> error + (pyval \<times> pyval) list \<times> (pyval \<times> pyval) list" where
  "field_metadata fl unit def_val =
     (if unit \<noteq> PNone \<or> def_val \<noteq> PNone then
        (if type_of unit \<notin> set [TStr, TDict]
         then Inl (ValueError ''Unit Type must be a single STR or dict!'')
         else
           (let units = (case unit of
                           PStr _ \<Rightarrow> dict_comp (\<lambda>f. unit) fl
                         | PDict kvs \<Rightarrow> dict_update [] kvs
                         | _ \<Rightarrow> []) in
            if type_of def_val \<notin> set [TInt, TFloat, TDict]
            then Inl (ValueError ''Default Value must be a single INT, FLOAT or dict!'')
            else
              (let def_vals = (case def_val of
                                 PDict kvs \<Rightarrow> dict_update [] kvs
                               | PNone \<Rightarrow> []
                               | PBool _ \<Rightarrow> []
                               | PStr _ \<Rightarrow> []
                               | PSeries _ \<Rightarrow> []
                               | _ \<Rightarrow> dict_comp (\<lambda>f. def_val) fl) in
               Inr (units, def_vals))))
      else Inr ([], []))"

text \<open>
  \<open>df.set_index(label, inplace=True)\<close> with the defaults \<open>drop=True\<close>,
  \<open>append=False\<close>: the column becomes the row index and leaves the columns, the old
  row labels are dropped. \<open>KeyError\<close> when there is no such column. In place: the
  frame the reference denotes is replaced in the heap.
\<close>

definition set_index :: "DataFrame \<Rightarrow> pyval \<Rightarrow> error + DataFrame" where
  "set_index df label =
     (case py_lookup (columns df) label of
        None \<Rightarrow> Inl KeyError
      | Some (dt, vals) \<Rightarrow>
          Inr \<lparr>index_name = label, index = vals,
               columns = filter (\<lambda>col. \<not> py_eq (fst col) label) (columns df)\<rparr>)"

definition set_index_inplace :: "heap \<Rightarrow> ref \<Rightarrow> pyval \<Rightarrow> error + heap" where
  "set_index_inplace h r label =
     (case set_index (h r) label of Inl e \<Rightarrow> Inl e | Inr df \<Rightarrow> Inr (h(r := df)))"

text \<open>
  \<open>SecurityLevelData.__init__(dated_df, unit=None, def_val=None)\<close>; the arguments
  \<open>valid\<close> and \<open>required\<close> are never read. For a single-level index
  \<open>index.names[0]\<close> is \<open>index.name\<close>, so lines 162 to 171 neither raise nor change
  the label they read, and the test of line 172 decides. Both handlers turn the
  \<open>KeyError\<close> of \<open>set_index\<close> into a \<open>ValueError\<close>.
\<close>

definition SecurityLevelData_init ::
  "world \<Rightarrow> heap \<Rightarrow> DatedDataFrame \<Rightarrow> pyval \<Rightarrow> pyval \<Rightarrow> error + heap \<times> SecurityLevelData" where
  "SecurityLevelData_init w h dated_df unit def_val =
     (let fl = map fst (columns (h (data_frame dated_df))) in
      case field_metadata fl unit def_val of
        Inl e \<Rightarrow> Inl e
      | Inr (units, def_vals) \<Rightarrow>
          (let fields = dict_comp (\<lambda>f. DataFrameField f (dict_get units f) (dict_get def_vals f)) fl;
               sch = DataFrameSchema (PStr ''SEC_ID'') fields;
               primary_ind_label = index_name (h (data_frame dated_df))
           in
           case (if \<not> py_eq primary_ind_label (INDEX_LABEL sch)
                 then set_index_inplace h (data_frame dated_df) (INDEX_LABEL sch)
                 else Inr h) of
             Inl e \<Rightarrow> Inl (ValueError ''DataFrame must include 'SEC_ID' column'')
           | Inr h' \<Rightarrow>
               (case add_data w
                       \<lparr>coll_DATA_ID = DATA_ID dated_df, data = [], data_dates = [],
                        schema = sch\<rparr> dated_df of
                  (self, None) \<Rightarrow> Inr (h', self)
                | (self, Some e) \<Rightarrow> Inl e)))"

definition get_field_names :: "SecurityLevelData \<Rightarrow> pyval list" where
  "get_field_names self = map fst (FIELDS (schema self))"

text \<open>
  \<open>df.loc[r, c]\<close> for a row label and a column label: \<open>KeyError\<close> when the column
  or the row label is absent, the cell when the label is in the index once, the cells of
  all its rows as a sequence when it is there several times.
\<close>

definition positions :: "pyval list \<Rightarrow> pyval \<Rightarrow> nat list" where
  "positions labels l = filter (\<lambda>i. py_eq (labels ! i) l) [0..<length labels]"

definition loc_cell :: "DataFrame \<Rightarrow> pyval \<Rightarrow> pyval \<Rightarrow> error + pyval" where
  "loc_cell df r c =
     (case py_lookup (columns df) c of
        None \<Rightarrow> Inl KeyError
      | Some (dt, vals) \<Rightarrow>
          (case positions (index df) r of
             [] \<Rightarrow> Inl KeyError
           | [i] \<Rightarrow> Inr (vals ! i)
           | ps \<Rightarrow> Inr (PSeries (map ((!) vals) ps))))"

definition get_value ::
  "world \<Rightarrow> heap \<Rightarrow> SecurityLevelData \<Rightarrow> pyval \<Rightarrow> pyval \<Rightarrow> pydate option \<Rightarrow> error + pyval" where
  "get_value w h self sec_id field date0 =
     (case get_latest_data w self date0 of
        Inl e \<Rightarrow> Inl e
      | Inr df \<Rightarrow>
          if \<not> py_mem field (get_field_names self)
          then Inl (ValueError ''Field not found in data schema!'')
          else
            (case loc_cell (h df) sec_id field of
               Inr result \<Rightarrow> Inr result
             | Inl KeyError \<Rightarrow>
                 (case py_lookup (FIELDS (schema self)) field of
                    None \<Rightarrow> Inl KeyError
                  | Some fd \<Rightarrow> Inr (DEF_VAL fd))
             | Inl e \<Rightarrow> Inl e))"

section \<open>quantfinance/utilities/pandas\_utils.py\<close>

text \<open>
  A \<open>Series\<close>: name, row labels, values and dtype. What \<open>apply_columnwise\<close> is given
  is a \<open>Series\<close>, a \<open>DataFrame\<close> or something else. What \<open>binary_func\<close> is given is a
  \<open>Series\<close> or, when the index is ignored, the bare array of values (\<open>.values\<close>).
\<close>

record Series =
  s_name :: pyval
  s_index :: "pyval list"
  s_values :: "pyval list"
  s_dtype :: dtype

datatype tabular = TSeries Series | TFrame DataFrame | TOther pyval

datatype colarg = ASeries Series | AArray dtype "pyval list"

type_synonym binary_func = "colarg \<Rightarrow> colarg \<Rightarrow> error + colarg"

text \<open>\<open>Series.to_frame()\<close>: one column, labelled by the name of the series, or 0 without one.\<close>

definition to_frame :: "Series \<Rightarrow> DataFrame" where
  "to_frame s =
     \<lparr>index_name = PNone, index = s_index s,
      columns = [(if s_name s = PNone then PInt 0 else s_name s, s_dtype s, s_values s)]\<rparr>"

definition as_frame :: "tabular \<Rightarrow> error + DataFrame" where
  "as_frame t =
     (case t of
        TSeries s \<Rightarrow> Inr (to_frame s)
      | TFrame df \<Rightarrow> Inr df
      | TOther _ \<Rightarrow> Inl (ValueError ''left and right must be pd.Series or pd.DataFrames!''))"

text \<open>
  \<open>df.loc[labels, c]\<close> for a list of row labels: the rows of each label in turn, as a
  series named \<open>c\<close>; \<open>KeyError\<close> when the column or one of the labels is absent.
\<close>

definition loc_rows :: "DataFrame \<Rightarrow> pyval list \<Rightarrow> pyval \<Rightarrow> error + Series" where
  "loc_rows df labels c =
     (case py_lookup (columns df) c of
        None \<Rightarrow> Inl KeyError
      | Some (dt, vals) \<Rightarrow>
          if list_all (\<lambda>l. py_mem l (index df)) labels
          then
            (let ps = concat (map (positions (index df)) labels) in
             Inr \<lparr>s_name = c, s_index = map ((!) (index df)) ps,
                  s_values = map ((!) vals) ps, s_dtype = dt\<rparr>)
          else Inl KeyError)"

text \<open>\<open>df[c].values\<close>: the cells of the column labelled \<open>c\<close>.\<close>

definition column_values :: "DataFrame \<Rightarrow> pyval \<Rightarrow> error + colarg" where
  "column_values df c =
     (case py_lookup (columns df) c of
        None \<Rightarrow> Inl KeyError
      | Some (dt, vals) \<Rightarrow> Inr (AArray dt vals))"

text \<open>\<open>df.columns.get_loc(c)\<close> for distinct column labels, and \<open>df.columns[i]\<close>.\<close>

definition get_loc :: "DataFrame \<Rightarrow> pyval \<Rightarrow> error + nat" where
  "get_loc df c =
     (case positions (map fst (columns df)) c of [] \<Rightarrow> Inl KeyError | i # _ \<Rightarrow> Inr i)"

definition column_label :: "DataFrame \<Rightarrow> nat \<Rightarrow> error + pyval" where
  "column_label df i =
     (if i < length (columns df) then Inr (fst (columns df ! i)) else Inl IndexError)"

definition left_label_at :: "DataFrame \<Rightarrow> DataFrame \<Rightarrow> pyval \<Rightarrow> error + pyval" where
  "left_label_at left right c =
     (case get_loc right c of Inl e \<Rightarrow> Inl e | Inr i \<Rightarrow> column_label left i)"

text \<open>
  \<open>_make_unary_func\<close>: the function of one column \<open>x\<close> of \<open>right\<close> that
  \<open>right.apply\<close> is given, for each of the four combinations of the flags.
\<close>

definition make_unary_func ::
  "DataFrame \<Rightarrow> DataFrame \<Rightarrow> binary_func \<Rightarrow> bool \<Rightarrow> bool \<Rightarrow> Series \<Rightarrow> error + colarg" where
  "make_unary_func left right binary_func ignore_index ignore_columns x =
     (if \<not> ignore_index then
        (if \<not> ignore_columns then
           (case loc_rows left (s_index x) (s_name x) of
              Inl e \<Rightarrow> Inl e
            | Inr l \<Rightarrow> binary_func (ASeries l) (ASeries x))
         else
           (case left_label_at left right (s_name x) of
              Inl e \<Rightarrow> Inl e
            | Inr c \<Rightarrow>
                (case loc_rows left (s_index x) c of
                   Inl e \<Rightarrow> Inl e
                 | Inr l \<Rightarrow> binary_func (ASeries l) (ASeries x))))
      else
        (if \<not> ignore_columns then
           (case column_values left (s_name x) of
              Inl e \<Rightarrow> Inl e
            | Inr l \<Rightarrow> binary_func l (AArray (s_dtype x) (s_values x)))
         else
           (case left_label_at left right (s_name x) of
              Inl e \<Rightarrow> Inl e
            | Inr c \<Rightarrow>
                (case column_values left c of
                   Inl e \<Rightarrow> Inl e
                 | Inr l \<Rightarrow> binary_func l (AArray (s_dtype x) (s_values x))))))"

text \<open>
  \<open>right.apply(f)\<close> calls \<open>f\<close> on each column of \<open>right\<close> in order, as a series
  named by the column label and indexed as \<open>right\<close>, and stops at the first exception.
  The result here is what \<open>apply\<close> assembles into the returned table: the results in
  column order, each under its column label; the table has the row labels of \<open>right\<close>
  when each result is a series indexed as its argument.

  On a table without rows or without columns \<open>apply\<close> does not call \<open>f\<close> on a
  column. It makes one trial call on an empty series named \<open>None\<close> and ignores the
  exception; in every branch of \<open>_make_unary_func\<close> that call raises \<open>KeyError\<close>,
  \<open>None\<close> being no column label. \<open>apply\<close> then returns a copy of the table: its
  columns as they are.
\<close>

fun map_err :: "('a \<Rightarrow> error + 'b) \<Rightarrow> 'a list \<Rightarrow> error + 'b list" where
  "map_err f [] = Inr []"
| "map_err f (x # xs) =
     (case f x of
        Inl e \<Rightarrow> Inl e
      | Inr y \<Rightarrow> (case map_err f xs of Inl e \<Rightarrow> Inl e | Inr ys \<Rightarrow> Inr (y # ys)))"

definition column_series :: "DataFrame \<Rightarrow> pyval \<times> dtype \<times> pyval list \<Rightarrow> Series" where
  "column_series df col =
     (case col of (c, dt, vals) \<Rightarrow>
        \<lparr>s_name = c, s_index = index df, s_values = vals, s_dtype = dt\<rparr>)"

definition frame_apply ::
  "DataFrame \<Rightarrow> (Series \<Rightarrow> error + colarg) \<Rightarrow> error + (pyval \<times> colarg) list" where
  "frame_apply df f =
     (if index df = [] \<or> columns df = []
      then Inr (map (\<lambda>col. (fst col, ASeries (column_series df col))) (columns df))
      else
        map_err
          (\<lambda>col. case f (column_series df col) of Inl e \<Rightarrow> Inl e | Inr y \<Rightarrow> Inr (fst col, y))
          (columns df))"

text \<open>
  \<open>pd.DataFrame([df.iloc[:, 0]] * n).reset_index(drop=True).T\<close>: the first column of
  \<open>df\<close>, \<open>n\<close> times, under the column labels \<open>0, ..., n - 1\<close> and the row labels of
  \<open>df\<close>. The constructor aligns the copies on their row labels and raises
  \<open>InvalidIndexError\<close> when a row label repeats; from no copy at all it makes the empty
  table.
\<close>

definition broadcast :: "DataFrame \<Rightarrow> nat \<Rightarrow> error + DataFrame" where
  "broadcast df n =
     (if n = 0 then Inr \<lparr>index_name = PNone, index = [], columns = []\<rparr>
      else if \<not> unique_labels (index df) then Inl InvalidIndexError
      else Inr (df\<lparr>columns := map (\<lambda>i. (PInt (int i), snd (hd (columns df)))) [0..<n]\<rparr>))"

text \<open>\<open>df[labels]\<close>: the columns with these labels, in the order of the labels.\<close>

definition select_columns :: "DataFrame \<Rightarrow> pyval list \<Rightarrow> DataFrame" where
  "select_columns df labels =
     df\<lparr>columns := concat (map (\<lambda>c. filter (\<lambda>col. py_eq (fst col) c) (columns df)) labels)\<rparr>"

text \<open>\<open>a.intersection(b)\<close> of two label sequences: the labels of \<open>a\<close> that \<open>b\<close> has, once each.\<close>

fun py_remdups :: "pyval list \<Rightarrow> pyval list" where
  "py_remdups [] = []"
| "py_remdups (l # ls) = l # py_remdups (filter (\<lambda>x. \<not> py_eq x l) ls)"

definition intersection :: "pyval list \<Rightarrow> pyval list \<Rightarrow> pyval list" where
  "intersection a b = py_remdups (filter (\<lambda>l. py_mem l b) a)"

definition apply_columnwise ::
  "tabular \<Rightarrow> tabular \<Rightarrow> binary_func \<Rightarrow> bool \<Rightarrow> bool \<Rightarrow> error + (pyval \<times> colarg) list" where
  "apply_columnwise left0 right0 binary_func ignore_index ignore_columns =
     (case as_frame left0 of
        Inl e \<Rightarrow> Inl e
      | Inr left \<Rightarrow>
     (case as_frame right0 of
        Inl e \<Rightarrow> Inl e
      | Inr right \<Rightarrow>
     if length (index left) \<noteq> length (index right) \<and> ignore_index
     then Inl (ValueError ''left, right must have same number of rows when ignoring index labels'')
     else if length (index left) \<noteq> length (index right)
             \<and> length (intersection (index left) (index right)) = 0
     then Inl (ValueError
            ''Cannot apply function! left, right do not share any index labels in common!'')
     else
       (let nl = length (columns left); nr = length (columns right) in
        case
          (if nl \<noteq> nr then
             (if ignore_columns then
                (if nl = 1 then
                   (case broadcast left nr of Inl e \<Rightarrow> Inl e | Inr l \<Rightarrow> Inr (l, right))
                 else if nr = 1 then
                   (case broadcast right nl of Inl e \<Rightarrow> Inl e | Inr r \<Rightarrow> Inr (left, r))
                 else Inl (ValueError ''Cannot apply function! left or right must have a single column when left, right have different number of columns and ignoring column labels''))
              else
                (let cols_in_common =
                       intersection (map fst (columns left)) (map fst (columns right)) in
                 if length cols_in_common = 0
                 then Inl (ValueError
                        ''Cannot apply function! left, right do not share any column labels in common'')
                 else Inr (select_columns left cols_in_common,
                           select_columns right cols_in_common)))
           else Inr (left, right)) of
          Inl e \<Rightarrow> Inl e
        | Inr (left', right') \<Rightarrow>
            frame_apply right'
              (make_unary_func left' right' binary_func ignore_index ignore_columns))))"

subsection \<open>\<open>dtype_specific_binary\<close>\<close>

text \<open>
  The tests of \<open>pandas.api.types\<close> on a dtype. A boolean dtype passes
  \<open>is_numeric_dtype\<close> as well as \<open>is_bool_dtype\<close>; an object dtype passes
  \<open>is_string_dtype\<close>; categorical, interval and period dtypes pass none of the
  numeric, datetime and string tests.
\<close>

definition is_numeric_dtype :: "dtype \<Rightarrow> bool" where
  "is_numeric_dtype d = (d \<in> set [Int64, Float64, Complex128, Bool])"

definition is_datetime64_any_dtype :: "dtype \<Rightarrow> bool" where
  "is_datetime64_any_dtype d = (d = Datetime64)"

definition is_timedelta64_dtype :: "dtype \<Rightarrow> bool" where
  "is_timedelta64_dtype d = (d = Timedelta64)"

definition is_timedelta64_ns_dtype :: "dtype \<Rightarrow> bool" where
  "is_timedelta64_ns_dtype d = (d = Timedelta64)"

definition is_bool_dtype :: "dtype \<Rightarrow> bool" where
  "is_bool_dtype d = (d = Bool)"

definition is_string_dtype :: "dtype \<Rightarrow> bool" where
  "is_string_dtype d = (d \<in> set [Object, StringDtype])"

definition is_categorical_dtype :: "dtype \<Rightarrow> bool" where
  "is_categorical_dtype d = (d = Category)"

definition is_interval_dtype :: "dtype \<Rightarrow> bool" where
  "is_interval_dtype d = (d = Interval)"

text \<open>
  The outcome of \<open>dtype_specific_binary\<close> when it does not raise: what the function it
  called returned, or the warning it issued and the series of NaNs it returned.
\<close>

datatype 'r dispatched = Returned 'r | Warned string Series

definition nan_series :: "pyval list \<Rightarrow> Series" where
  "nan_series idx =
     \<lparr>s_name = PNone, s_index = idx, s_values = replicate (length idx) PNaN,
      s_dtype = Float64\<rparr>"

definition dtype_specific_binary ::
  "Series \<Rightarrow> Series \<Rightarrow> (Series \<Rightarrow> Series \<Rightarrow> 'r) \<Rightarrow> (Series \<Rightarrow> Series \<Rightarrow> 'r) \<Rightarrow>
   (Series \<Rightarrow> Series \<Rightarrow> 'r) \<Rightarrow> (Series \<Rightarrow> Series \<Rightarrow> 'r) \<Rightarrow> (Series \<Rightarrow> Series \<Rightarrow> 'r) \<Rightarrow>
   (Series \<Rightarrow> Series \<Rightarrow> 'r) \<Rightarrow> string \<Rightarrow> error + 'r dispatched" where
  "dtype_specific_binary left right numerics datetimes bools strings categoricals intervals errors =
     (let ld = s_dtype left; rd = s_dtype right in
      if is_numeric_dtype ld \<and> is_numeric_dtype rd then Inr (Returned (numerics left right))
      else if (is_datetime64_any_dtype ld \<or> is_timedelta64_dtype ld \<or> is_timedelta64_ns_dtype ld)
              \<and> (is_datetime64_any_dtype rd \<or> is_timedelta64_dtype rd \<or> is_timedelta64_ns_dtype rd)
      then Inr (Returned (datetimes left right))
      else if is_bool_dtype ld \<and> is_bool_dtype rd then Inr (Returned (bools left right))
      else if is_string_dtype ld \<and> is_string_dtype rd then Inr (Returned (strings left right))
      else if is_categorical_dtype ld \<and> is_categorical_dtype rd
      then Inr (Returned (categoricals left right))
      else if is_interval_dtype ld \<and> is_interval_dtype rd
      then Inr (Returned (intervals left right))
      else if errors = ''raise''
      then Inl (ValueError ''left and right do not have matching supported dtypes'')
      else Inr (Warned ''do not have comparable dtypes, returning NaNs''
                  (nan_series (s_index right))))"

section \<open>Example inputs\<close>

text \<open>
  A clock (with it, a sort that raises at once and leaves the list as it was), two price snapshots indexed by \<open>SEC_ID\<close> (rows A and B on 2021-01-31, row A
  alone on 2021-02-28), a snapshot that carries \<open>SEC_ID\<close> as a column, and a heap that
  holds them at the references 0, 1 and 2.
\<close>

definition ex_world :: world where
  "ex_world =
     \<lparr>today = (2021, 3, 1, 10, 30, 0, 0),
      fromtimestamp_int = (\<lambda>_. Inl (ValueError ''no local time'')),
      sort_leaves = (\<lambda>ks. ks)\<rparr>"

definition jan31 :: datetime where
  "jan31 = (2021, 1, 31, 0, 0, 0, 0)"

definition feb28 :: datetime where
  "feb28 = (2021, 2, 28, 0, 0, 0, 0)"

definition ex_frame_jan :: DataFrame where
  "ex_frame_jan =
     \<lparr>index_name = PStr ''SEC_ID'', index = [PStr ''A'', PStr ''B''],
      columns = [(PStr ''PRICE'', Float64, [PInt 10, PInt 20])]\<rparr>"

definition ex_frame_feb :: DataFrame where
  "ex_frame_feb =
     \<lparr>index_name = PStr ''SEC_ID'', index = [PStr ''A''],
      columns = [(PStr ''PRICE'', Float64, [PInt 11])]\<rparr>"

definition ex_frame_col :: DataFrame where
  "ex_frame_col =
     \<lparr>index_name = PNone, index = [PInt 0, PInt 1],
      columns = [(PStr ''SEC_ID'', Object, [PStr ''A'', PStr ''B'']),
                 (PStr ''PRICE'', Float64, [PInt 10, PInt 20])]\<rparr>"

definition ex_heap :: heap where
  "ex_heap = (\<lambda>_. ex_frame_jan)(1 := ex_frame_feb, 2 := ex_frame_col)"

definition ex_coll :: DataFrameCollection where
  "ex_coll =
     \<lparr>coll_DATA_ID = PStr ''px'', data = [(DT jan31, 0), (DT feb28, 1)],
      data_dates = [DT jan31, DT feb28]\<rparr>"

text \<open>
  The same collection after a snapshot dated by a string was added to it, and a collection
  constructed from a snapshot dated by a string.
\<close>

definition ex_coll_mixed :: DataFrameCollection where
  "ex_coll_mixed =
     \<lparr>coll_DATA_ID = PStr ''px'',
      data = [(DT jan31, 0), (DT feb28, 1), (Str ''2021-03-31'', 2)],
      data_dates = [DT jan31, DT feb28, Str ''2021-03-31'']\<rparr>"

definition ex_coll_str :: DataFrameCollection where
  "ex_coll_str =
     \<lparr>coll_DATA_ID = PStr ''px'', data = [(Str ''2021-01-31'', 0)],
      data_dates = [Str ''2021-01-31'']\<rparr>"

text \<open>
  A volume snapshot without a \<open>PRICE\<close> column at reference 3 of a second heap, and the
  stores that hold the price snapshot of January, then a snapshot of February as well.
\<close>

definition ex_frame_vol :: DataFrame where
  "ex_frame_vol =
     \<lparr>index_name = PStr ''SEC_ID'', index = [PStr ''A''],
      columns = [(PStr ''VOLUME'', Int64, [PInt 700])]\<rparr>"

definition ex_heap_vol :: heap where
  "ex_heap_vol = ex_heap(3 := ex_frame_vol)"

definition ex_schema :: DataFrameSchema where
  "ex_schema =
     DataFrameSchema (PStr ''SEC_ID'')
       [(PStr ''PRICE'', DataFrameField (PStr ''PRICE'') PNone (PInt 0))]"

definition ex_store_jan :: SecurityLevelData where
  "ex_store_jan =
     \<lparr>coll_DATA_ID = PStr ''px'', data = [(DT jan31, 0)], data_dates = [DT jan31],
      schema = ex_schema\<rparr>"

definition ex_store_feb :: SecurityLevelData where
  "ex_store_feb =
     \<lparr>coll_DATA_ID = PStr ''px'', data = [(DT jan31, 0), (DT feb28, 1)],
      data_dates = [DT jan31, DT feb28], schema = ex_schema\<rparr>"

definition ex_store_vol :: SecurityLevelData where
  "ex_store_vol =
     \<lparr>coll_DATA_ID = PStr ''px'', data = [(DT jan31, 0), (DT feb28, 3)],
      data_dates = [DT jan31, DT feb28], schema = ex_schema\<rparr>"

text \<open>
  Tables for \<open>apply_columnwise\<close>: a single column \<open>x\<close> on the rows 0 and 1, two columns
  on the same rows in the other order, two columns on the rows 5 and 6; and a binary
  function that pairs the values of its arguments.
\<close>

definition ex_left :: DataFrame where
  "ex_left =
     \<lparr>index_name = PNone, index = [PInt 0, PInt 1],
      columns = [(PStr ''x'', Int64, [PInt 1, PInt 2])]\<rparr>"

definition ex_right :: DataFrame where
  "ex_right =
     \<lparr>index_name = PNone, index = [PInt 1, PInt 0],
      columns = [(PStr ''a'', Int64, [PInt 10, PInt 20]),
                 (PStr ''b'', Int64, [PInt 30, PInt 40])]\<rparr>"

definition ex_right_far :: DataFrame where
  "ex_right_far =
     \<lparr>index_name = PNone, index = [PInt 5, PInt 6],
      columns = [(PStr ''a'', Int64, [PInt 10, PInt 20]),
                 (PStr ''b'', Int64, [PInt 30, PInt 40])]\<rparr>"

definition arg_values :: "colarg \<Rightarrow> pyval list" where
  "arg_values a = (case a of ASeries s \<Rightarrow> s_values s | AArray _ vs \<Rightarrow> vs)"

definition ex_pair :: binary_func where
  "ex_pair l r =
     Inr (AArray Object (map (\<lambda>(a, b). PSeries [a, b]) (zip (arg_values l) (arg_values r))))"

text \<open>A column of booleans.\<close>

definition ex_flags :: Series where
  "ex_flags =
     \<lparr>s_name = PStr ''flag'', s_index = [PInt 0, PInt 1],
      s_values = [PBool True, PBool False], s_dtype = Bool\<rparr>"

text \<open>For a label that is in a sequence of labels once: where it is.\<close>

definition label_pos :: "pyval list \<Rightarrow> pyval \<Rightarrow> nat" where
  "label_pos labels l = hd (positions labels l)"

section \<open>Properties of the date sequence\<close>

lemma all_DT_map: "list_all is_DT ks \<Longrightarrow> ks = map DT (map un_DT ks)"
  by (induction ks) auto
lemma all_Str_map: "list_all is_Str ks \<Longrightarrow> ks = map Str (map un_Str ks)"
  by (induction ks) auto
lemma all_Num_map: "list_all is_Num ks \<Longrightarrow> ks = map Num (map un_Num ks)"
  by (induction ks) auto

lemma key_lt_simps [simp]:
  "key_lt (DT x) (DT y) = (x < y)"
  "key_lt (Str s) (Str t) = (s < t)"
  "key_lt (Num i) (Num j) = (i < j)"
  by (simp_all add: key_lt_def)

lemma sorted_wrt_key_lt_sort:
  fixes C :: "'a::linorder \<Rightarrow> pydate"
  assumes "\<And>x y. key_lt (C x) (C y) = (x < y)" "distinct xs"
  shows "sorted_wrt key_lt (map C (sort xs))"
proof -
  have "sorted_wrt (<) (sort xs)" using assms(2) by (simp add: strict_sorted_iff)
  then show ?thesis by (simp add: sorted_wrt_map assms(1))
qed

lemma list_sort_Inr:
  assumes "list_sort ks = Inr ks'" "distinct ks"
  shows "sorted_wrt key_lt ks' \<and> set ks' = set ks \<and> length ks' = length ks \<and> distinct ks'"
proof -
  consider (dt) "list_all is_DT ks" | (str) "\<not> list_all is_DT ks" "list_all is_Str ks"
    | (num) "\<not> list_all is_DT ks" "\<not> list_all is_Str ks" "list_all is_Num ks"
    using assms(1) by (auto simp: list_sort_def split: if_splits)
  then show ?thesis
  proof cases
    case dt
    define xs where "xs = map un_DT ks"
    have ks: "ks = map DT xs" unfolding xs_def using dt by (rule all_DT_map)
    have d: "distinct xs" using assms(2) unfolding ks by (simp add: distinct_map)
    have r: "ks' = map DT (sort xs)" using assms(1) dt by (simp add: list_sort_def xs_def)
    have "sorted_wrt key_lt ks'" unfolding r by (rule sorted_wrt_key_lt_sort) (simp_all add: d)
    moreover have "distinct ks'" unfolding r using d by (simp add: distinct_map inj_on_def)
    ultimately show ?thesis by (simp add: r ks)
  next
    case str
    define xs where "xs = map un_Str ks"
    have ks: "ks = map Str xs" unfolding xs_def using str(2) by (rule all_Str_map)
    have d: "distinct xs" using assms(2) unfolding ks by (simp add: distinct_map)
    have r: "ks' = map Str (sort xs)" using assms(1) str by (simp add: list_sort_def xs_def)
    have "sorted_wrt key_lt ks'" unfolding r by (rule sorted_wrt_key_lt_sort) (simp_all add: d)
    moreover have "distinct ks'" unfolding r using d by (simp add: distinct_map inj_on_def)
    ultimately show ?thesis by (simp add: r ks)
  next
    case num
    define xs where "xs = map un_Num ks"
    have ks: "ks = map Num xs" unfolding xs_def using num(3) by (rule all_Num_map)
    have d: "distinct xs" using assms(2) unfolding ks by (simp add: distinct_map)
    have r: "ks' = map Num (sort xs)" using assms(1) num by (simp add: list_sort_def xs_def)
    have "sorted_wrt key_lt ks'" unfolding r by (rule sorted_wrt_key_lt_sort) (simp_all add: d)
    moreover have "distinct ks'" unfolding r using d by (simp add: distinct_map inj_on_def)
    ultimately show ?thesis by (simp add: r ks)
  qed
qed

lemma list_sort_set:
  assumes "list_sort ks = Inr ks'"
  shows "set ks' = set ks \<and> length ks' = length ks"
proof -
  consider (dt) "list_all is_DT ks" | (str) "\<not> list_all is_DT ks" "list_all is_Str ks"
    | (num) "\<not> list_all is_DT ks" "\<not> list_all is_Str ks" "list_all is_Num ks"
    using assms(1) by (auto simp: list_sort_def split: if_splits)
  then show ?thesis
  proof cases
    case dt
    define xs where "xs = map un_DT ks"
    have ks: "ks = map DT xs" unfolding xs_def using dt by (rule all_DT_map)
    have r: "ks' = map DT (sort xs)" using assms(1) dt by (simp add: list_sort_def xs_def)
    show ?thesis by (simp add: r ks)
  next
    case str
    define xs where "xs = map un_Str ks"
    have ks: "ks = map Str xs" unfolding xs_def using str(2) by (rule all_Str_map)
    have r: "ks' = map Str (sort xs)" using assms(1) str by (simp add: list_sort_def xs_def)
    show ?thesis by (simp add: r ks)
  next
    case num
    define xs where "xs = map un_Num ks"
    have ks: "ks = map Num xs" unfolding xs_def using num(3) by (rule all_Num_map)
    have r: "ks' = map Num (sort xs)" using assms(1) num by (simp add: list_sort_def xs_def)
    show ?thesis by (simp add: r ks)
  qed
qed

lemma list_sort_Inl: "list_sort ks = Inl e \<Longrightarrow> e = TypeError \<and> (\<exists>a \<in> set ks. \<exists>b \<in> set ks. \<not> same_kind a b)"
proof -
  assume a: "list_sort ks = Inl e"
  then have n: "\<not> list_all is_DT ks" "\<not> list_all is_Str ks" "\<not> list_all is_Num ks" and e: "e = TypeError"
    by (auto simp: list_sort_def split: if_splits)
  from n(1) obtain a where a: "a \<in> set ks" "\<not> is_DT a" by (auto simp: list_all_iff)
  show ?thesis
  proof (cases a)
    case (DT x) with a show ?thesis by simp
  next
    case (Str s)
    from n(2) obtain b where b: "b \<in> set ks" "\<not> is_Str b" by (auto simp: list_all_iff)
    have "\<not> same_kind a b" using Str b by (simp add: same_kind_def)
    with a b e show ?thesis by blast
  next
    case (Num i)
    from n(3) obtain b where b: "b \<in> set ks" "\<not> is_Num b" by (auto simp: list_all_iff)
    have "\<not> same_kind a b" using Num b by (simp add: same_kind_def)
    with a b e show ?thesis by blast
  qed
qed

lemma list_sort_same_kind:
  assumes "\<forall>a \<in> set ks. \<forall>b \<in> set ks. same_kind a b"
  shows "\<exists>ks'. list_sort ks = Inr ks'"
proof (cases "list_sort ks")
  case (Inl e)
  from list_sort_Inl[OF this] assms show ?thesis by blast
next
  case (Inr ks') then show ?thesis by simp
qed

lemma key_lt_irrefl: "\<not> key_lt a a"
  by (cases a) simp_all

lemma sorted_wrt_key_lt_distinct: "sorted_wrt key_lt ks \<Longrightarrow> distinct ks"
  by (induction ks) (auto simp: key_lt_irrefl)

lemma dates_consistent_length:
  assumes "dates_consistent self"
  shows "length (data_dates self) = length (data self)"
proof -
  have "distinct (data_dates self)" using assms
    by (simp add: dates_consistent_def sorted_wrt_key_lt_distinct)
  then have "length (data_dates self) = card (set (data_dates self))"
    by (simp add: distinct_card)
  also have "\<dots> = card (set (map fst (data self)))" using assms by (simp add: dates_consistent_def)
  also have "\<dots> = length (map fst (data self))"
    using assms by (intro distinct_card) (simp add: dates_consistent_def)
  finally show ?thesis by simp
qed

lemma same_kind_sym: "same_kind a b \<Longrightarrow> same_kind b a"
  by (auto simp: same_kind_def)

lemma same_kind_refl: "same_kind a a"
  by (cases a) (simp_all add: same_kind_def)

lemma key_lt_same_kind: "key_lt a b \<Longrightarrow> same_kind a b"
  by (cases a; cases b) (simp_all add: key_lt_def same_kind_def)

lemma sorted_wrt_key_lt_same_kind:
  "sorted_wrt key_lt ks \<Longrightarrow> a \<in> set ks \<Longrightarrow> b \<in> set ks \<Longrightarrow> same_kind a b"
proof (induction ks)
  case Nil
  then show ?case by simp
next
  case (Cons x xs)
  have hd: "\<And>y. y \<in> set xs \<Longrightarrow> same_kind x y"
    using Cons.prems(1) by (simp add: key_lt_same_kind)
  show ?case
  proof (cases "a = x")
    case ax: True
    show ?thesis
    proof (cases "b = x")
      case True with ax show ?thesis by (simp add: same_kind_refl)
    next
      case False
      with Cons.prems(3) have "b \<in> set xs" by simp
      with ax show ?thesis by (simp add: hd)
    qed
  next
    case ax: False
    with Cons.prems(2) have a': "a \<in> set xs" by simp
    show ?thesis
    proof (cases "b = x")
      case True with a' show ?thesis by (simp add: hd same_kind_sym)
    next
      case False
      with Cons.prems(3) have "b \<in> set xs" by simp
      with a' Cons show ?thesis by simp
    qed
  qed
qed

lemma add_data_None:
  assumes "add_data w self d = (self', None)"
  shows "data self' = AList.update (date d) (data_frame d) (data self)"
    and "list_sort (map fst (data self')) = Inr (data_dates self')"
    and "DataFrameCollection.more self' = DataFrameCollection.more self"
    and "coll_DATA_ID self' = coll_DATA_ID self"
  using assms by (auto simp: add_data_def Let_def split: sum.splits)

lemma add_data_Some:
  assumes "add_data w self d = (self', Some e)"
  shows "data self' = AList.update (date d) (data_frame d) (data self)"
    and "list_sort (map fst (data self')) = Inl e"
    and "data_dates self' = sort_leaves w (map fst (data self'))"
    and "DataFrameCollection.more self' = DataFrameCollection.more self"
    and "coll_DATA_ID self' = coll_DATA_ID self"
  using assms by (auto simp: add_data_def Let_def split: sum.splits)

lemma add_data_consistent:
  assumes inv: "distinct (map fst (data self))" and ok: "add_data w self d = (self', None)"
  shows "dates_consistent self'" "distinct (data_dates self')"
proof -
  note r = add_data_None[OF ok]
  have dk: "distinct (map fst (data self'))" using inv by (simp add: r(1) distinct_update)
  from list_sort_Inr[OF r(2) dk]
  show "dates_consistent self'" "distinct (data_dates self')"
    by (simp_all add: dates_consistent_def dk)
qed

lemma add_data_present:
  assumes inv: "dates_consistent self" and ok: "add_data w self d = (self', None)"
    and pres: "date d \<in> set (data_dates self)"
  shows "length (data_dates self') = length (data_dates self)"
    and "set (data_dates self') = set (data_dates self)"
proof -
  note r = add_data_None[OF ok]
  have dk: "distinct (map fst (data self))" using inv by (simp add: dates_consistent_def)
  have dk': "distinct (map fst (data self'))" using dk by (simp add: r(1) distinct_update)
  have pk: "date d \<in> fst ` set (data self)" using inv pres by (simp add: dates_consistent_def)
  have keys: "map fst (data self') = map fst (data self)"
    using pk by (simp add: r(1) update_keys)
  note s = list_sort_Inr[OF r(2) dk']
  have l0: "length (data_dates self) = length (data self)"
    using inv by (rule dates_consistent_length)
  have "length (data_dates self') = length (map fst (data self'))" using s by simp
  then show "length (data_dates self') = length (data_dates self)"
    using keys l0 by simp
  show "set (data_dates self') = set (data_dates self)"
    using s keys inv by (simp add: dates_consistent_def)
qed

lemma add_data_keys:
  assumes inv: "dates_consistent self"
  shows "set (map fst (AList.update (date d) (data_frame d) (data self))) =
           insert (date d) (set (data_dates self))"
  using inv by (auto simp: dates_consistent_def dom_update)

lemma add_data_returns_same_kind:
  assumes inv: "dates_consistent self" and ok: "add_data w self d = (self', None)"
    and k: "k \<in> set (data_dates self)"
  shows "same_kind k (date d)"
proof -
  note r = add_data_None[OF ok]
  have dk: "distinct (map fst (data self'))"
    using inv by (simp add: r(1) distinct_update dates_consistent_def)
  note s = list_sort_Inr[OF r(2) dk]
  have "set (data_dates self') = insert (date d) (set (data_dates self))"
    using s add_data_keys[OF inv, of d] by (simp add: r(1))
  then have "k \<in> set (data_dates self')" "date d \<in> set (data_dates self')" using k by auto
  with s show ?thesis by (blast intro: sorted_wrt_key_lt_same_kind)
qed

lemma add_data_raises:
  assumes inv: "dates_consistent self" and bad: "add_data w self d = (self', Some e)"
  shows "e = TypeError \<and> (\<exists>k \<in> set (data_dates self). \<not> same_kind k (date d))"
proof -
  let ?ks = "map fst (AList.update (date d) (data_frame d) (data self))"
  have ls: "list_sort ?ks = Inl e"
    using add_data_Some(1,2)[OF bad] by simp
  from list_sort_Inl[OF ls] obtain a b where
    e: "e = TypeError" and ab: "a \<in> set ?ks" "b \<in> set ?ks" "\<not> same_kind a b" by blast
  have keys: "set ?ks = insert (date d) (set (data_dates self))"
    using inv by (rule add_data_keys)
  have old: "\<And>x y. x \<in> set (data_dates self) \<Longrightarrow> y \<in> set (data_dates self) \<Longrightarrow> same_kind x y"
    using inv by (auto simp: dates_consistent_def intro: sorted_wrt_key_lt_same_kind)
  have "\<exists>k \<in> set (data_dates self). \<not> same_kind k (date d)"
  proof (rule ccontr)
    assume "\<not> ?thesis"
    then have all: "\<And>k. k \<in> set (data_dates self) \<Longrightarrow> same_kind k (date d)" by blast
    have a: "a = date d \<or> a \<in> set (data_dates self)" using ab(1) keys by blast
    have b: "b = date d \<or> b \<in> set (data_dates self)" using ab(2) keys by blast
    have "same_kind a b"
    proof (cases "a = date d")
      case True
      show ?thesis
      proof (cases "b = date d")
        case True with \<open>a = date d\<close> show ?thesis by (simp add: same_kind_refl)
      next
        case False
        with b have "same_kind b (date d)" by (simp add: all)
        with True show ?thesis by (simp add: same_kind_sym)
      qed
    next
      case False
      with a have a': "a \<in> set (data_dates self)" by simp
      show ?thesis
      proof (cases "b = date d")
        case True with a' show ?thesis by (simp add: all)
      next
        case False
        with b a' show ?thesis by (simp add: old)
      qed
    qed
    with ab(3) show False by simp
  qed
  with e show ?thesis by simp
qed

text \<open>
  What a call that raises leaves behind: the new key is stored, and the date sequence
  holds the keys, each once, but is not sorted.
\<close>

lemma add_data_raises_leaves:
  assumes inv: "dates_consistent self" and bad: "add_data w self d = (self', Some e)"
    and perm: "mset (sort_leaves w (map fst (data self'))) = mset (map fst (data self'))"
  shows "set (data_dates self') = set (map fst (data self'))"
    and "distinct (data_dates self')"
    and "\<not> sorted_wrt key_lt (data_dates self')"
    and "\<not> dates_consistent self'"
proof -
  note r = add_data_Some[OF bad]
  have dk: "distinct (map fst (data self'))"
    using inv by (simp add: r(1) distinct_update dates_consistent_def)
  have m: "mset (data_dates self') = mset (map fst (data self'))" using perm by (simp add: r(3))
  show s: "set (data_dates self') = set (map fst (data self'))" using m by (rule mset_eq_setD)
  show "distinct (data_dates self')" using m dk by (metis mset_eq_imp_distinct_iff)
  from add_data_raises[OF inv bad] obtain k where
    k: "k \<in> set (data_dates self)" "\<not> same_kind k (date d)" by blast
  have "set (data_dates self') = insert (date d) (set (data_dates self))"
    using s add_data_keys[OF inv, of d] by (simp add: r(1))
  then have in': "k \<in> set (data_dates self')" "date d \<in> set (data_dates self')" using k by auto
  show ns: "\<not> sorted_wrt key_lt (data_dates self')"
  proof
    assume "sorted_wrt key_lt (data_dates self')"
    from sorted_wrt_key_lt_same_kind[OF this in'] k(2) show False by simp
  qed
  then show "\<not> dates_consistent self'" by (simp add: dates_consistent_def)
qed

text \<open>
  A collection keyed by datetimes stays one under \<open>add_data\<close> with a datetime, and
  \<open>add_data\<close> does not raise on it.
\<close>

lemma add_data_datetime_total:
  assumes inv: "dates_consistent self" and dts: "list_all is_DT (data_dates self)"
    and d: "is_DT (date d)"
  shows "\<exists>self'. add_data w self d = (self', None) \<and> dates_consistent self'
           \<and> list_all is_DT (data_dates self')"
proof -
  obtain self' out where r: "add_data w self d = (self', out)" by (cases "add_data w self d") auto
  show ?thesis
  proof (cases out)
    case (Some e)
    from add_data_raises[OF inv r[unfolded Some]] obtain k where
      k: "k \<in> set (data_dates self)" "\<not> same_kind k (date d)"
      by blast
    from k(1) dts have "is_DT k" by (simp add: list_all_iff)
    with d k(2) show ?thesis by (simp add: same_kind_def)
  next
    case None
    note ok = r[unfolded None]
    have dk: "distinct (map fst (data self))" using inv by (simp add: dates_consistent_def)
    have c: "dates_consistent self'" using add_data_consistent(1)[OF dk ok] .
    have "set (data_dates self') = insert (date d) (set (data_dates self))"
      using list_sort_set[OF add_data_None(2)[OF ok]] add_data_keys[OF inv, of d]
      by (simp add: add_data_None(1)[OF ok])
    then have "list_all is_DT (data_dates self')"
      using dts d by (simp add: list_all_iff)
    with ok c show ?thesis by simp
  qed
qed

section \<open>Date coercion: the inferred format\<close>

lemma digit_val_le: "is_digit c \<Longrightarrow> digit_val c \<le> 9"
  by (auto simp: is_digit_def digit_val_def)

lemma digit19_val: "is_digit19 c \<Longrightarrow> 1 \<le> digit_val c \<and> digit_val c \<le> 9"
  by (auto simp: is_digit19_def digit_val_def)

lemma match_Y_range: "(v, r) \<in> set (match_Y s) \<Longrightarrow> v \<le> 9999"
proof (induction s rule: match_Y.induct)
  case (1 a b c d r')
  then have "is_digit a" "is_digit b" "is_digit c" "is_digit d"
    and v: "v = 1000 * digit_val a + 100 * digit_val b + 10 * digit_val c + digit_val d"
    by (auto split: if_splits)
  then have "digit_val a \<le> 9" "digit_val b \<le> 9" "digit_val c \<le> 9" "digit_val d \<le> 9"
    by (simp_all add: digit_val_le)
  with v show ?case by linarith
qed simp_all

lemma match_m_range: "(v, r) \<in> set (match_m s) \<Longrightarrow> 1 \<le> v \<and> v \<le> 12"
  by (auto simp: match_m_def two_chars_def one_char_def is_digit_def digit_val_def
      dest: digit19_val split: list.splits if_splits)

lemma match_d_range: "(v, r) \<in> set (match_d s) \<Longrightarrow> 1 \<le> v \<and> v \<le> 31"
  by (auto simp: match_d_def two_chars_def one_char_def is_digit_def digit_val_def
      dest: digit19_val split: list.splits if_splits)

lemma re_match_range:
  "(fd', r) \<in> set (re_match fmt s fd) \<Longrightarrow> in_range fd \<Longrightarrow> in_range fd'"
proof (induction fmt s fd rule: re_match.induct)
  case (1 s fd)
  then show ?case by simp
next
  case (2 ds s y m d)
  then obtain v r' where v: "(v, r') \<in> set (match_Y s)" "(fd', r) \<in> set (re_match ds r' (v, m, d))"
    by auto
  have "in_range (v, m, d)" using "2.prems"(2) match_Y_range[OF v(1)] by (simp add: in_range_def)
  with "2.IH"[OF v(1) _ v(2)] show ?case by simp
next
  case (3 ds s y m d)
  then obtain v r' where v: "(v, r') \<in> set (match_m s)" "(fd', r) \<in> set (re_match ds r' (y, v, d))"
    by auto
  have "in_range (y, v, d)" using "3.prems"(2) match_m_range[OF v(1)] by (simp add: in_range_def)
  with "3.IH"[OF v(1) _ v(2)] show ?case by simp
next
  case (4 ds s y m d)
  then obtain v r' where v: "(v, r') \<in> set (match_d s)" "(fd', r) \<in> set (re_match ds r' (y, m, v))"
    by auto
  have "in_range (y, m, v)" using "4.prems"(2) match_d_range[OF v(1)] by (simp add: in_range_def)
  with "4.IH"[OF v(1) _ v(2)] show ?case by simp
next
  case (5 c ds s fd)
  then show ?case by (auto split: list.splits if_splits)
qed

lemma strptime_midnight_date: "strptime s fmt = Inr dt \<Longrightarrow> midnight_date dt"
proof -
  assume a: "strptime s fmt = Inr dt"
  then obtain y m d rest cands where c: "re_match fmt s (1900, 1, 1) = ((y, m, d), rest) # cands"
    and dt: "dt = (y, m, d, 0, 0, 0, 0)" and ok: "\<not> y < 1" "\<not> days_in_month y m < d"
    by (auto simp: strptime_def split: list.splits prod.splits if_splits)
  have "((y, m, d), rest) \<in> set (re_match fmt s (1900, 1, 1))" unfolding c by simp
  then have "in_range (y, m, d)" by (rule re_match_range) (simp add: in_range_def)
  with ok dt show ?thesis by (simp add: midnight_date_def in_range_def)
qed

lemma strptime_error: "strptime s f = Inl e \<Longrightarrow> \<exists>msg. e = ValueError msg"
  by (auto simp: strptime_def split: list.splits prod.splits if_splits)

text \<open>
  C5. For a string, with no \<open>input_fmt\<close> and \<open>from_tstamp\<close> false, \<open>create_datetime\<close>
  picks the format in this order: a \<open>-\<close> in the string, \<open>'%Y-%m-%d'\<close>; else a \<open>/\<close>,
  \<open>'%m/%d/%Y'\<close>; else length 8, \<open>'%Y%m%d'\<close>; else length 6, \<open>'%Y%m'\<close>; else it raises
  \<open>ValueError\<close>. What \<open>strptime\<close> raises is the result of the call, and every failure
  is a \<open>ValueError\<close>; a date that is returned is a calendar date at midnight, read from
  the string.
\<close>

theorem create_datetime_infers_format:
  "create_datetime w (Str s) None False =
     (if CHR ''-'' \<in> set s then strptime s fmt_Y_m_d
      else if CHR ''/'' \<in> set s then strptime s fmt_mdY_slash
      else if length s = 8 then strptime s fmt_Ymd
      else if length s = 6 then strptime s fmt_Ym
      else Inl (ValueError ''Cannot convert date_str - format not recognized!''))
   \<and> (\<forall>e. create_datetime w (Str s) None False = Inl e \<longrightarrow> (\<exists>msg. e = ValueError msg))
   \<and> (\<forall>dt. create_datetime w (Str s) None False = Inr dt \<longrightarrow> midnight_date dt)"
proof (intro conjI allI impI)
  show eq: "create_datetime w (Str s) None False =
     (if CHR ''-'' \<in> set s then strptime s fmt_Y_m_d
      else if CHR ''/'' \<in> set s then strptime s fmt_mdY_slash
      else if length s = 8 then strptime s fmt_Ymd
      else if length s = 6 then strptime s fmt_Ym
      else Inl (ValueError ''Cannot convert date_str - format not recognized!''))"
    by (simp add: create_datetime_def parse_date_str_def)
  fix e assume "create_datetime w (Str s) None False = Inl e"
  then show "\<exists>msg. e = ValueError msg"
    unfolding eq by (auto split: if_splits dest: strptime_error)
next
  fix dt assume "create_datetime w (Str s) None False = Inr dt"
  then obtain f where "strptime s f = Inr dt"
    by (auto simp: create_datetime_def parse_date_str_def split: if_splits)
  then show "midnight_date dt" by (rule strptime_midnight_date)
qed

theorem create_datetime_infers_format_witness:
  "create_datetime ex_world (Str ''2020-07-04'') None False = Inr (2020, 7, 4, 0, 0, 0, 0)
   \<and> create_datetime ex_world (Str ''07/04/2020'') None False = Inr (2020, 7, 4, 0, 0, 0, 0)
   \<and> create_datetime ex_world (Str ''20200704'') None False = Inr (2020, 7, 4, 0, 0, 0, 0)
   \<and> create_datetime ex_world (Str ''202007'') None False = Inr (2020, 7, 1, 0, 0, 0, 0)
   \<and> create_datetime ex_world (Str ''2020'') None False =
       Inl (ValueError ''Cannot convert date_str - format not recognized!'')"
proof -
  have p1: "strptime ''2020-07-04'' fmt_Y_m_d = Inr (2020, 7, 4, 0, 0, 0, 0)" by code_simp
  have p2: "strptime ''07/04/2020'' fmt_mdY_slash = Inr (2020, 7, 4, 0, 0, 0, 0)" by code_simp
  have p3: "strptime ''20200704'' fmt_Ymd = Inr (2020, 7, 4, 0, 0, 0, 0)" by code_simp
  have p4: "strptime ''202007'' fmt_Ym = Inr (2020, 7, 1, 0, 0, 0, 0)" by code_simp
  have "create_datetime ex_world (Str ''2020-07-04'') None False = Inr (2020, 7, 4, 0, 0, 0, 0)"
    using create_datetime_infers_format[of ex_world "''2020-07-04''"] p1 by simp
  moreover
  have "create_datetime ex_world (Str ''07/04/2020'') None False = Inr (2020, 7, 4, 0, 0, 0, 0)"
    using create_datetime_infers_format[of ex_world "''07/04/2020''"] p2 by simp
  moreover
  have "create_datetime ex_world (Str ''20200704'') None False = Inr (2020, 7, 4, 0, 0, 0, 0)"
    using create_datetime_infers_format[of ex_world "''20200704''"] p3 by simp
  moreover
  have "create_datetime ex_world (Str ''202007'') None False = Inr (2020, 7, 1, 0, 0, 0, 0)"
    using create_datetime_infers_format[of ex_world "''202007''"] p4 by simp
  moreover
  have "create_datetime ex_world (Str ''2020'') None False =
       Inl (ValueError ''Cannot convert date_str - format not recognized!'')"
    using create_datetime_infers_format[of ex_world "''2020''"] by simp
  ultimately show ?thesis by blast
qed

section \<open>DataFrameCollection: insertion\<close>

text \<open>
  C4, as the code has it. Construction returns a collection whose \<open>data_dates\<close> is
  sorted ascending, has no duplicate and holds exactly the keys of \<open>data\<close>. On such a
  collection a call of \<open>add_data\<close> that returns keeps all of this, replaces the frame at
  a date that is already a key and leaves the length of \<open>data_dates\<close> unchanged; it
  returns only when every stored date is of the kind of the new one. A call that raises
  raises \<open>TypeError\<close>, and only when a stored date is of another kind than the new one
  (a string among datetimes); the object then holds the new key in \<open>data\<close>, and
  \<open>data_dates\<close> is what the interrupted sort left of the keys: as a permutation of
  the keys it has each key once and is not sorted.
\<close>

theorem data_dates_invariant:
  "(\<exists>c. DataFrameCollection_init w d0 = Inr c \<and> dates_consistent c \<and> distinct (data_dates c))
   \<and> (dates_consistent self \<longrightarrow>
        (case add_data w self d of
           (self', None) \<Rightarrow>
             dates_consistent self' \<and> distinct (data_dates self')
             \<and> map_of (data self') (date d) = Some (data_frame d)
             \<and> (date d \<in> set (data_dates self) \<longrightarrow>
                   length (data_dates self') = length (data_dates self))
             \<and> (\<forall>k \<in> set (data_dates self). same_kind k (date d))
         | (self', Some e) \<Rightarrow>
             e = TypeError \<and> (\<exists>k \<in> set (data_dates self). \<not> same_kind k (date d))
             \<and> data self' = AList.update (date d) (data_frame d) (data self)
             \<and> data_dates self' = sort_leaves w (map fst (data self'))
             \<and> (mset (sort_leaves w (map fst (data self'))) = mset (map fst (data self')) \<longrightarrow>
                   set (data_dates self') = set (map fst (data self'))
                   \<and> distinct (data_dates self')
                   \<and> \<not> sorted_wrt key_lt (data_dates self'))))"
proof (intro conjI impI)
  let ?e = "\<lparr>coll_DATA_ID = DATA_ID d0, data = [], data_dates = []\<rparr>"
  have "list_sort [date d0] = Inr [date d0]"
    by (cases "date d0") (simp_all add: list_sort_def)
  then have "add_data w ?e d0 =
               (?e\<lparr>data := [(date d0, data_frame d0)], data_dates := [date d0]\<rparr>, None)"
    by (simp add: add_data_def)
  then show "\<exists>c. DataFrameCollection_init w d0 = Inr c \<and> dates_consistent c
                  \<and> distinct (data_dates c)"
    by (simp add: DataFrameCollection_init_def dates_consistent_def)
next
  assume inv: "dates_consistent self"
  obtain self' out where r: "add_data w self d = (self', out)"
    by (cases "add_data w self d") auto
  show "case add_data w self d of
           (self', None) \<Rightarrow>
             dates_consistent self' \<and> distinct (data_dates self')
             \<and> map_of (data self') (date d) = Some (data_frame d)
             \<and> (date d \<in> set (data_dates self) \<longrightarrow>
                   length (data_dates self') = length (data_dates self))
             \<and> (\<forall>k \<in> set (data_dates self). same_kind k (date d))
         | (self', Some e) \<Rightarrow>
             e = TypeError \<and> (\<exists>k \<in> set (data_dates self). \<not> same_kind k (date d))
             \<and> data self' = AList.update (date d) (data_frame d) (data self)
             \<and> data_dates self' = sort_leaves w (map fst (data self'))
             \<and> (mset (sort_leaves w (map fst (data self'))) = mset (map fst (data self')) \<longrightarrow>
                   set (data_dates self') = set (map fst (data self'))
                   \<and> distinct (data_dates self')
                   \<and> \<not> sorted_wrt key_lt (data_dates self'))"
  proof (cases out)
    case (Some e)
    note bad = r[unfolded Some]
    have "mset (sort_leaves w (map fst (data self'))) = mset (map fst (data self')) \<longrightarrow>
            set (data_dates self') = set (map fst (data self'))
            \<and> distinct (data_dates self')
            \<and> \<not> sorted_wrt key_lt (data_dates self')"
      using add_data_raises_leaves(1-3)[OF inv bad] by blast
    with add_data_raises[OF inv bad] add_data_Some(1,3)[OF bad]
    show ?thesis unfolding bad by (simp only: prod.case option.case; blast)
  next
    case None
    note ok = r[unfolded None]
    have dk: "distinct (map fst (data self))" using inv by (simp add: dates_consistent_def)
    have m: "map_of (data self') (date d) = Some (data_frame d)"
      by (simp add: add_data_None(1)[OF ok] update_conv')
    have k: "\<forall>k \<in> set (data_dates self). same_kind k (date d)"
      using add_data_returns_same_kind[OF inv ok] by blast
    from add_data_consistent[OF dk ok] add_data_present(1)[OF inv ok] m k
    show ?thesis unfolding ok by (simp only: prod.case option.case; blast)
  qed
qed

theorem data_dates_invariant_witness:
  "dates_consistent ex_coll
   \<and> add_data ex_world ex_coll (DatedDataFrame (DT jan31) 2 (PStr ''px'')) =
       (ex_coll\<lparr>data := [(DT jan31, 2), (DT feb28, 1)]\<rparr>, None)
   \<and> dates_consistent (ex_coll\<lparr>data := [(DT jan31, 2), (DT feb28, 1)]\<rparr>)
   \<and> length (data_dates (ex_coll\<lparr>data := [(DT jan31, 2), (DT feb28, 1)]\<rparr>)) =
       length (data_dates ex_coll)
   \<and> add_data ex_world ex_coll (DatedDataFrame (Str ''2021-03-31'') 2 (PStr ''px'')) =
       (ex_coll_mixed, Some TypeError)
   \<and> mset (sort_leaves ex_world (map fst (data ex_coll_mixed))) =
       mset (map fst (data ex_coll_mixed))
   \<and> distinct (data_dates ex_coll_mixed)
   \<and> \<not> sorted_wrt key_lt (data_dates ex_coll_mixed)"
proof -
  let ?d = "DatedDataFrame (DT jan31) 2 (PStr ''px'')"
  let ?c = "ex_coll\<lparr>data := [(DT jan31, 2), (DT feb28, 1)]\<rparr>"
  let ?s = "DatedDataFrame (Str ''2021-03-31'') 2 (PStr ''px'')"
  have h1: "dates_consistent ex_coll"
    by (simp add: dates_consistent_def ex_coll_def jan31_def feb28_def)
  have ev: "add_data ex_world ex_coll ?d = (?c, None)"
    by (simp add: add_data_def list_sort_def ex_coll_def jan31_def feb28_def)
  have pres: "date ?d \<in> set (data_dates ex_coll)"
    by (simp add: ex_coll_def)
  note t1 = data_dates_invariant[of ex_world "?d" ex_coll ?d, THEN conjunct2, THEN mp, OF h1]
  have a: "dates_consistent ?c \<and> length (data_dates ?c) = length (data_dates ex_coll)"
    using t1 pres unfolding ev by (simp only: prod.case option.case)
  have ev2: "add_data ex_world ex_coll ?s = (ex_coll_mixed, Some TypeError)"
    by (simp add: add_data_def list_sort_def ex_coll_def ex_coll_mixed_def ex_world_def)
  have perm: "mset (sort_leaves ex_world (map fst (data ex_coll_mixed))) =
                mset (map fst (data ex_coll_mixed))"
    by (simp add: ex_world_def)
  note t2 = data_dates_invariant[of ex_world "?d" ex_coll ?s, THEN conjunct2, THEN mp, OF h1]
  note t3 = t2[unfolded ev2 prod.case option.case]
  note b = t3[THEN conjunct2, THEN conjunct2, THEN conjunct2, THEN conjunct2, THEN mp,
              OF perm, THEN conjunct2]
  from h1 ev a ev2 perm b show ?thesis by blast
qed

text \<open>
  C4, as the claim has it, fails for a call of \<open>add_data\<close> that raises. A snapshot dated
  by the string \<open>'2021-03-31'\<close> is added to a collection keyed by two datetimes: the sort
  raises \<open>TypeError\<close> after the key was stored, the date sequence of the object is left
  with the string after the datetimes, which is not sorted, and the next query of the
  collection raises \<open>TypeError\<close> in the bisection.
\<close>

theorem add_data_raise_breaks_invariant_counterexample:
  "dates_consistent ex_coll
   \<and> add_data ex_world ex_coll (DatedDataFrame (Str ''2021-03-31'') 2 (PStr ''px'')) =
       (ex_coll_mixed, Some TypeError)
   \<and> data_dates ex_coll_mixed = [DT jan31, DT feb28, Str ''2021-03-31'']
   \<and> \<not> sorted_wrt key_lt (data_dates ex_coll_mixed)
   \<and> \<not> dates_consistent ex_coll_mixed
   \<and> get_last_data_date ex_world ex_coll_mixed (DT (2021, 3, 15, 0, 0, 0, 0)) = Inl TypeError"
proof (intro conjI)
  show "dates_consistent ex_coll"
    by (simp add: dates_consistent_def ex_coll_def jan31_def feb28_def)
  show "add_data ex_world ex_coll (DatedDataFrame (Str ''2021-03-31'') 2 (PStr ''px'')) =
       (ex_coll_mixed, Some TypeError)"
    by (simp add: add_data_def list_sort_def ex_coll_def ex_coll_mixed_def ex_world_def)
  show "data_dates ex_coll_mixed = [DT jan31, DT feb28, Str ''2021-03-31'']"
    by (simp add: ex_coll_mixed_def)
  show "\<not> sorted_wrt key_lt (data_dates ex_coll_mixed)"
    by (simp add: ex_coll_mixed_def key_lt_def)
  then show "\<not> dates_consistent ex_coll_mixed"
    by (simp add: dates_consistent_def)
  show "get_last_data_date ex_world ex_coll_mixed (DT (2021, 3, 15, 0, 0, 0, 0)) = Inl TypeError"
    by code_simp
qed

text \<open>
  C3, as the code has it. \<open>add_data\<close> applies no coercion: the date of the
  \<open>DatedDataFrame\<close> is the key as it is given. It stores or overwrites
  \<open>data[date] = data_frame\<close> under that value, sets \<open>data_dates\<close> to the sorted keys of
  the mapping and changes nothing else of the object. A datetime is its own canonical
  form (\<open>create_datetime\<close> returns it unchanged), so for a datetime the key is the
  canonical date.
\<close>

theorem add_data_stores_date_as_given:
  assumes "add_data w self d = (self', None)"
  shows "map_of (data self') = (map_of (data self))(date d \<mapsto> data_frame d)
         \<and> list_sort (map fst (data self')) = Inr (data_dates self')
         \<and> set (data_dates self') = insert (date d) (fst ` set (data self))
         \<and> coll_DATA_ID self' = coll_DATA_ID self
         \<and> DataFrameCollection.more self' = DataFrameCollection.more self
         \<and> (\<forall>x. date d = DT x \<longrightarrow> create_datetime w (date d) None False = Inr x)"
proof -
  note r = add_data_None[OF assms]
  have ks: "set (data_dates self') = set (map fst (data self'))"
    using list_sort_set[OF r(2)] by simp
  have "set (data_dates self') = insert (date d) (fst ` set (data self))"
    unfolding ks r(1) using dom_update[of "date d" "data_frame d" "data self"] by simp
  then show ?thesis
    using r by (simp add: update_conv' create_datetime_def)
qed

theorem add_data_stores_date_as_given_witness:
  "add_data ex_world ex_coll (DatedDataFrame (DT (2021, 3, 31, 0, 0, 0, 0)) 2 (PStr ''px'')) =
     (ex_coll\<lparr>data := [(DT jan31, 0), (DT feb28, 1), (DT (2021, 3, 31, 0, 0, 0, 0), 2)],
                  data_dates := [DT jan31, DT feb28, DT (2021, 3, 31, 0, 0, 0, 0)]\<rparr>, None)
   \<and> set (data_dates
         (ex_coll\<lparr>data := [(DT jan31, 0), (DT feb28, 1), (DT (2021, 3, 31, 0, 0, 0, 0), 2)],
                  data_dates := [DT jan31, DT feb28, DT (2021, 3, 31, 0, 0, 0, 0)]\<rparr>)) =
       insert (DT (2021, 3, 31, 0, 0, 0, 0)) (fst ` set (data ex_coll))
   \<and> create_datetime ex_world (DT (2021, 3, 31, 0, 0, 0, 0)) None False =
       Inr (2021, 3, 31, 0, 0, 0, 0)"
proof -
  let ?m = "(2021, 3, 31, 0, 0, 0, 0) :: datetime"
  let ?d = "DatedDataFrame (DT ?m) 2 (PStr ''px'')"
  let ?c = "ex_coll\<lparr>data := [(DT jan31, 0), (DT feb28, 1), (DT ?m, 2)],
                  data_dates := [DT jan31, DT feb28, DT ?m]\<rparr>"
  have ev: "add_data ex_world ex_coll ?d = (?c, None)"
    by (simp add: add_data_def list_sort_def ex_coll_def jan31_def feb28_def)
  from add_data_stores_date_as_given[OF ev]
  have "set (data_dates ?c) = insert (date ?d) (fst ` set (data ex_coll))"
    and "\<forall>x. date ?d = DT x \<longrightarrow> create_datetime ex_world (date ?d) None False = Inr x"
    by blast+
  then have "set (data_dates ?c) = insert (DT ?m) (fst ` set (data ex_coll))"
    and "create_datetime ex_world (DT ?m) None False = Inr ?m"
    by simp_all
  with ev show ?thesis by blast
qed

text \<open>
  C3, as the claim has it, fails for a string date. Constructed from a snapshot dated by
  the string \<open>'2021-02-28'\<close>, the collection holds the string as its key, not the
  datetime that \<open>create_datetime\<close> makes of it; and inserting a string-dated snapshot
  into a collection keyed by datetimes raises \<open>TypeError\<close> in the sort, the string
  having been stored as a key.
\<close>

theorem add_data_string_date_counterexample:
  "DataFrameCollection_init ex_world (DatedDataFrame (Str ''2021-02-28'') 1 (PStr ''px'')) =
     Inr \<lparr>coll_DATA_ID = PStr ''px'', data = [(Str ''2021-02-28'', 1)],
          data_dates = [Str ''2021-02-28'']\<rparr>
   \<and> create_datetime ex_world (Str ''2021-02-28'') None False = Inr feb28
   \<and> snd (add_data ex_world ex_coll (DatedDataFrame (Str ''2021-02-28'') 1 (PStr ''px''))) =
       Some TypeError
   \<and> map fst (data (fst (add_data ex_world ex_coll
                            (DatedDataFrame (Str ''2021-02-28'') 1 (PStr ''px''))))) =
       [DT jan31, DT feb28, Str ''2021-02-28'']"
proof (intro conjI)
  show "DataFrameCollection_init ex_world (DatedDataFrame (Str ''2021-02-28'') 1 (PStr ''px'')) =
     Inr \<lparr>coll_DATA_ID = PStr ''px'', data = [(Str ''2021-02-28'', 1)],
          data_dates = [Str ''2021-02-28'']\<rparr>"
    by (simp add: DataFrameCollection_init_def add_data_def list_sort_def)
  show "create_datetime ex_world (Str ''2021-02-28'') None False = Inr feb28"
    by code_simp
  show "snd (add_data ex_world ex_coll (DatedDataFrame (Str ''2021-02-28'') 1 (PStr ''px''))) =
       Some TypeError"
    by (simp add: add_data_def list_sort_def ex_coll_def)
  show "map fst (data (fst (add_data ex_world ex_coll
                            (DatedDataFrame (Str ''2021-02-28'') 1 (PStr ''px''))))) =
       [DT jan31, DT feb28, Str ''2021-02-28'']"
    by (simp add: add_data_def list_sort_def ex_coll_def)
qed

section \<open>DataFrameCollection: the date as of a query\<close>

lemma bisect_right_sorted:
  assumes "sorted ds" "lo \<le> hi" "hi \<le> length ds"
    and "\<forall>j<lo. ds ! j \<le> x"
    and "\<forall>j. hi \<le> j \<and> j < length ds \<longrightarrow> x < ds ! j"
  shows "\<exists>i. bisect_right (map DT ds) x lo hi = Inr i \<and> lo \<le> i \<and> i \<le> hi
           \<and> (\<forall>j<i. ds ! j \<le> x) \<and> (\<forall>j. i \<le> j \<and> j < length ds \<longrightarrow> x < ds ! j)"
  using assms
proof (induction "map DT ds" x lo hi rule: bisect_right.induct)
  case (1 x lo hi)
  let ?mid = "(lo + hi) div 2"
  show ?case
  proof (cases "lo < hi")
    case False
    with 1 show ?thesis
      by (simp add: bisect_right.simps)
  next
    case True
    then have mid: "lo \<le> ?mid" "?mid < hi" "?mid < length ds"
      using 1 by auto
    have am: "map DT ds ! ?mid = DT (ds ! ?mid)" using mid by simp
    show ?thesis
    proof (cases "x < ds ! ?mid")
      case lt: True
      have hi': "\<forall>j. ?mid \<le> j \<and> j < length ds \<longrightarrow> x < ds ! j"
      proof (intro allI impI)
        fix j assume j: "?mid \<le> j \<and> j < length ds"
        then have "ds ! ?mid \<le> ds ! j" using \<open>sorted ds\<close> by (simp add: sorted_nth_mono)
        with lt show "x < ds ! j" by simp
      qed
      from "1.hyps"(1)[OF True am lt "1.prems"(1) mid(1) _ "1.prems"(4) hi'] mid
      obtain i where i: "bisect_right (map DT ds) x lo ?mid = Inr i" "lo \<le> i" "i \<le> ?mid"
        "\<forall>j<i. ds ! j \<le> x" "\<forall>j. i \<le> j \<and> j < length ds \<longrightarrow> x < ds ! j"
        by auto
      have "bisect_right (map DT ds) x lo hi = bisect_right (map DT ds) x lo ?mid"
        using True am lt by (subst bisect_right.simps) simp
      with i mid show ?thesis by auto
    next
      case ge: False
      have lo': "\<forall>j<?mid + 1. ds ! j \<le> x"
      proof (intro allI impI)
        fix j assume j: "j < ?mid + 1"
        then have "ds ! j \<le> ds ! ?mid" using \<open>sorted ds\<close> mid by (simp add: sorted_nth_mono)
        with ge show "ds ! j \<le> x" by simp
      qed
      from "1.hyps"(2)[OF True am ge "1.prems"(1) _ "1.prems"(3) lo' "1.prems"(5)] mid
      obtain i where i: "bisect_right (map DT ds) x (?mid + 1) hi = Inr i" "?mid + 1 \<le> i" "i \<le> hi"
        "\<forall>j<i. ds ! j \<le> x" "\<forall>j. i \<le> j \<and> j < length ds \<longrightarrow> x < ds ! j"
        by auto
      have "bisect_right (map DT ds) x lo hi = bisect_right (map DT ds) x (?mid + 1) hi"
        using True am ge by (subst bisect_right.simps) simp
      with i mid show ?thesis by auto
    qed
  qed
qed

lemma bisect_right_as_of:
  assumes sd: "sorted_wrt (<) ds" and nd: "d \<notin> set ds"
  shows "\<exists>i. bisect_right (map DT ds) d 0 (length ds) = Inr i \<and> i \<le> length ds \<and>
           (if \<exists>k \<in> set ds. k < d then 0 < i \<and> ds ! (i - 1) = Max {k \<in> set ds. k < d} else i = 0)"
proof -
  have s: "sorted ds" using sd by (simp add: strict_sorted_iff)
  have b0: "\<forall>j<0. ds ! j \<le> d" by simp
  have b1: "\<forall>j. length ds \<le> j \<and> j < length ds \<longrightarrow> d < ds ! j" by auto
  from bisect_right_sorted[OF s _ _ b0 b1]
  obtain i where i: "bisect_right (map DT ds) d 0 (length ds) = Inr i" "i \<le> length ds"
    "\<forall>j<i. ds ! j \<le> d" "\<forall>j. i \<le> j \<and> j < length ds \<longrightarrow> d < ds ! j"
    by auto
  show ?thesis
  proof (cases "\<exists>k \<in> set ds. k < d")
    case True
    then obtain k where k: "k \<in> set ds" "k < d" by blast
    then obtain j where j: "j < length ds" "ds ! j = k" by (auto simp: in_set_conv_nth)
    have "j < i" using i(4) j k by (metis not_le_imp_less less_asym)
    then have ipos: "0 < i" by simp
    let ?m = "ds ! (i - 1)"
    have m_in: "?m \<in> set ds" using ipos i(2) by simp
    have "?m \<le> d" using i(3) ipos by simp
    moreover have "?m \<noteq> d" using m_in nd by auto
    ultimately have m_lt: "?m < d" by simp
    have "Max {k \<in> set ds. k < d} = ?m"
    proof (rule Max_eqI)
      show "finite {k \<in> set ds. k < d}" by simp
    next
      fix y assume "y \<in> {k \<in> set ds. k < d}"
      then obtain j' where j': "j' < length ds" "ds ! j' = y" "y < d"
        by (auto simp: in_set_conv_nth)
      have "j' < i" using i(4) j' by (metis not_le_imp_less less_asym)
      then have "ds ! j' \<le> ds ! (i - 1)" using s i(2) by (intro sorted_nth_mono) auto
      then show "y \<le> ?m" using j' by simp
    next
      show "?m \<in> {k \<in> set ds. k < d}" using m_in m_lt by simp
    qed
    with True i ipos show ?thesis by auto
  next
    case False
    have "i = 0"
    proof (rule ccontr)
      assume "i \<noteq> 0"
      then have "ds ! (i - 1) \<le> d" "ds ! (i - 1) \<in> set ds" using i(2,3) by auto
      with False nd show False by (metis order_le_imp_less_or_eq)
    qed
    with False i show ?thesis by auto
  qed
qed

lemma as_of_equation:
  assumes inv: "dates_consistent self" and dts: "list_all is_DT (data_dates self)"
  shows "get_last_data_date w self q =
     (case create_datetime w q None False of
        Inl e \<Rightarrow> Inl e
      | Inr d \<Rightarrow>
          if DT d \<in> set (data_dates self) then Inr (DT d)
          else if \<exists>k. DT k \<in> set (data_dates self) \<and> k < d
          then Inr (DT (Max {k. DT k \<in> set (data_dates self) \<and> k < d}))
          else Inl (ValueError ''No Earlier Data Available!''))"
proof (cases "create_datetime w q None False")
  case (Inl e)
  then show ?thesis by (simp add: get_last_data_date_def)
next
  case (Inr d)
  define ds where "ds = map un_DT (data_dates self)"
  have kd: "data_dates self = map DT ds" unfolding ds_def using dts by (rule all_DT_map)
  have sd: "sorted_wrt (<) ds" using inv by (simp add: dates_consistent_def kd sorted_wrt_map)
  have mem: "\<And>k. DT k \<in> set (data_dates self) \<longleftrightarrow> k \<in> set ds" by (auto simp: kd)
  have look: "map_of (data self) (DT d) = None \<longleftrightarrow> DT d \<notin> set (data_dates self)"
    using inv by (simp add: dates_consistent_def map_of_eq_None_iff)
  show ?thesis
  proof (cases "DT d \<in> set (data_dates self)")
    case True
    then obtain r where "map_of (data self) (DT d) = Some r" using look by auto
    with True Inr show ?thesis by (simp add: get_last_data_date_def)
  next
    case False
    then have nd: "d \<notin> set ds" by (simp add: mem)
    from bisect_right_as_of[OF sd nd] obtain i where
      i: "bisect_right (map DT ds) d 0 (length ds) = Inr i" "i \<le> length ds"
         "if \<exists>k \<in> set ds. k < d then 0 < i \<and> ds ! (i - 1) = Max {k \<in> set ds. k < d} else i = 0"
      by blast
    have none: "map_of (data self) (DT d) = None" using False look by simp
    have seteq: "{k. DT k \<in> set (data_dates self) \<and> k < d} = {k \<in> set ds. k < d}"
      by (simp add: mem)
    show ?thesis
    proof (cases "\<exists>k \<in> set ds. k < d")
      case True
      with i have "0 < i" "ds ! (i - 1) = Max {k \<in> set ds. k < d}" by auto
      moreover have "\<exists>k. DT k \<in> set (data_dates self) \<and> k < d" using True mem by blast
      ultimately show ?thesis
        using Inr False none i(1,2) seteq
        by (simp add: get_last_data_date_def kd)
    next
      case F2: False
      with i have "i = 0" by auto
      moreover have "\<not> (\<exists>k. DT k \<in> set (data_dates self) \<and> k < d)" using F2 mem by blast
      ultimately show ?thesis
        using Inr False none i(1)
        by (simp add: get_last_data_date_def kd)
    qed
  qed
qed

text \<open>
  A collection constructed from a snapshot dated by a datetime is keyed by datetimes and
  consistent; with \<open>add_data_datetime_total\<close>, so is every collection built from
  snapshots dated by datetimes.
\<close>

lemma init_datetime_consistent:
  assumes "is_DT (date d0)"
  shows "\<exists>c. DataFrameCollection_init w d0 = Inr c \<and> dates_consistent c
             \<and> list_all is_DT (data_dates c)"
proof -
  let ?e = "\<lparr>coll_DATA_ID = DATA_ID d0, data = [], data_dates = []\<rparr>"
  have "list_sort [date d0] = Inr [date d0]"
    by (cases "date d0") (simp_all add: list_sort_def)
  then have "add_data w ?e d0 =
               (?e\<lparr>data := [(date d0, data_frame d0)], data_dates := [date d0]\<rparr>, None)"
    by (simp add: add_data_def)
  then show ?thesis using assms
    by (simp add: DataFrameCollection_init_def dates_consistent_def)
qed

text \<open>
  C2, as the code has it. In a collection keyed by datetimes whose date sequence is
  consistent with its mapping (every collection constructed and extended with snapshots
  dated by datetimes), \<open>get_last_data_date\<close> first coerces the query with
  \<open>create_datetime\<close> (a failure there is the result); a query that is a key resolves to
  itself; any other query resolves to the greatest key strictly below it; and the call
  raises \<open>ValueError('No Earlier Data Available!')\<close> exactly when no key is at or below
  the query. A resolved date is a key and is never later than the query.
\<close>

theorem get_last_data_date_as_of:
  assumes inv: "dates_consistent self" and dts: "list_all is_DT (data_dates self)"
  shows "get_last_data_date w self q =
     (case create_datetime w q None False of
        Inl e \<Rightarrow> Inl e
      | Inr d \<Rightarrow>
          if DT d \<in> set (data_dates self) then Inr (DT d)
          else if \<exists>k. DT k \<in> set (data_dates self) \<and> k < d
          then Inr (DT (Max {k. DT k \<in> set (data_dates self) \<and> k < d}))
          else Inl (ValueError ''No Earlier Data Available!''))
     \<and> (\<forall>r d. get_last_data_date w self q = Inr r \<longrightarrow> create_datetime w q None False = Inr d
            \<longrightarrow> r \<in> set (data_dates self) \<and> \<not> key_lt (DT d) r)"
proof (intro conjI allI impI)
  show "get_last_data_date w self q =
     (case create_datetime w q None False of
        Inl e \<Rightarrow> Inl e
      | Inr d \<Rightarrow>
          if DT d \<in> set (data_dates self) then Inr (DT d)
          else if \<exists>k. DT k \<in> set (data_dates self) \<and> k < d
          then Inr (DT (Max {k. DT k \<in> set (data_dates self) \<and> k < d}))
          else Inl (ValueError ''No Earlier Data Available!''))"
    using inv dts by (rule as_of_equation)
next
  fix r d
  assume r: "get_last_data_date w self q = Inr r" and d: "create_datetime w q None False = Inr d"
  let ?S = "{k. DT k \<in> set (data_dates self) \<and> k < d}"
  have fin: "finite ?S"
  proof (rule finite_subset)
    show "?S \<subseteq> un_DT ` set (data_dates self)" by force
  qed simp
  have eq: "(Inr r :: error + pydate) =
      (if DT d \<in> set (data_dates self) then Inr (DT d)
       else if \<exists>k. DT k \<in> set (data_dates self) \<and> k < d
       then Inr (DT (Max ?S))
       else Inl (ValueError ''No Earlier Data Available!''))"
    using as_of_equation[OF inv dts, of w q] unfolding d r by (simp only: sum.case)
  show "r \<in> set (data_dates self)"
  proof (cases "DT d \<in> set (data_dates self)")
    case True with eq show ?thesis by simp
  next
    case False
    have ne: "\<exists>k. DT k \<in> set (data_dates self) \<and> k < d"
    proof (rule ccontr)
      assume "\<not> ?thesis"
      with eq False have "Inr r = (Inl (ValueError ''No Earlier Data Available!'') :: error + pydate)"
        by (simp only: if_False)
      then show False by simp
    qed
    from eq False ne have "(Inr r :: error + pydate) = Inr (DT (Max ?S))"
      by (simp only: if_True if_False)
    then have rm: "r = DT (Max ?S)" by (simp only: sum.inject)
    from ne have "?S \<noteq> {}" by blast
    with fin have "Max ?S \<in> ?S" by (rule Max_in)
    with rm show ?thesis by simp
  qed
  show "\<not> key_lt (DT d) r"
  proof (cases "DT d \<in> set (data_dates self)")
    case True with eq show ?thesis by simp
  next
    case False
    have ne: "\<exists>k. DT k \<in> set (data_dates self) \<and> k < d"
    proof (rule ccontr)
      assume "\<not> ?thesis"
      with eq False have "Inr r = (Inl (ValueError ''No Earlier Data Available!'') :: error + pydate)"
        by (simp only: if_False)
      then show False by simp
    qed
    from eq False ne have "(Inr r :: error + pydate) = Inr (DT (Max ?S))"
      by (simp only: if_True if_False)
    then have rm: "r = DT (Max ?S)" by (simp only: sum.inject)
    from ne have "?S \<noteq> {}" by blast
    with fin have "Max ?S \<in> ?S" by (rule Max_in)
    then have "Max ?S < d" by simp
    with rm show ?thesis by simp
  qed
qed

theorem get_last_data_date_as_of_witness:
  "dates_consistent ex_coll \<and> list_all is_DT (data_dates ex_coll)
   \<and> get_last_data_date ex_world ex_coll (Str ''2021-02-15'') = Inr (DT jan31)"
proof -
  let ?d = "(2021, 2, 15, 0, 0, 0, 0) :: datetime"
  have h1: "dates_consistent ex_coll"
    by (simp add: dates_consistent_def ex_coll_def jan31_def feb28_def)
  have h2: "list_all is_DT (data_dates ex_coll)"
    by (simp add: ex_coll_def)
  have cd: "create_datetime ex_world (Str ''2021-02-15'') None False = Inr ?d"
    by code_simp
  have ks: "set (data_dates ex_coll) = {DT jan31, DT feb28}"
    by (simp add: ex_coll_def)
  have nin: "DT ?d \<notin> set (data_dates ex_coll)"
    unfolding ks by (simp add: jan31_def feb28_def)
  have ex: "\<exists>k. DT k \<in> set (data_dates ex_coll) \<and> k < ?d"
    unfolding ks by (rule exI[of _ jan31]) (simp add: jan31_def)
  have S: "{k. DT k \<in> set (data_dates ex_coll) \<and> k < ?d} = {jan31}"
    unfolding ks by (auto simp: jan31_def feb28_def)
  from get_last_data_date_as_of[OF h1 h2, of ex_world "Str ''2021-02-15''"]
  have "get_last_data_date ex_world ex_coll (Str ''2021-02-15'') =
     (case create_datetime ex_world (Str ''2021-02-15'') None False of
        Inl e \<Rightarrow> Inl e
      | Inr d \<Rightarrow>
          if DT d \<in> set (data_dates ex_coll) then Inr (DT d)
          else if \<exists>k. DT k \<in> set (data_dates ex_coll) \<and> k < d
          then Inr (DT (Max {k. DT k \<in> set (data_dates ex_coll) \<and> k < d}))
          else Inl (ValueError ''No Earlier Data Available!''))"
    by (rule conjunct1)
  then have "get_last_data_date ex_world ex_coll (Str ''2021-02-15'') = Inr (DT jan31)"
    unfolding cd using nin ex S by (simp only: sum.case if_True if_False Max_singleton)
  with h1 h2 show ?thesis by simp
qed


text \<open>
  C2, as the claim has it, fails for a collection that is not keyed by datetimes. The
  constructor accepts a snapshot dated by the string \<open>'2021-01-31'\<close> and keys the
  collection by that string. The query \<open>'2021-01-31'\<close> is coerced to a datetime, which
  is not a key, and the bisection compares the datetime with the string key: the call
  raises \<open>TypeError\<close>, which is neither the key, nor an earlier key, nor the
  \<open>ValueError\<close> of a query before all dates.
\<close>

theorem get_last_data_date_string_keys_counterexample:
  "DataFrameCollection_init ex_world (DatedDataFrame (Str ''2021-01-31'') 0 (PStr ''px'')) =
     Inr ex_coll_str
   \<and> dates_consistent ex_coll_str
   \<and> create_datetime ex_world (Str ''2021-01-31'') None False = Inr jan31
   \<and> get_last_data_date ex_world ex_coll_str (Str ''2021-01-31'') = Inl TypeError
   \<and> get_last_data_date ex_world ex_coll_str (DT feb28) = Inl TypeError"
proof (intro conjI)
  show "DataFrameCollection_init ex_world (DatedDataFrame (Str ''2021-01-31'') 0 (PStr ''px'')) =
     Inr ex_coll_str"
    by (simp add: DataFrameCollection_init_def add_data_def list_sort_def ex_coll_str_def)
  show "dates_consistent ex_coll_str"
    by (simp add: dates_consistent_def ex_coll_str_def)
  show "create_datetime ex_world (Str ''2021-01-31'') None False = Inr jan31"
    by code_simp
  show "get_last_data_date ex_world ex_coll_str (Str ''2021-01-31'') = Inl TypeError"
    by code_simp
  show "get_last_data_date ex_world ex_coll_str (DT feb28) = Inl TypeError"
    by code_simp
qed

text \<open>The snapshot of a resolved date is there: \<open>get_latest_data\<close> returns it.\<close>

lemma get_latest_data_resolves:
  assumes inv: "dates_consistent self"
    and r: "get_last_data_date w self q = Inr k" and k: "k \<in> set (data_dates self)"
  shows "\<exists>df. get_latest_data w self (Some q) = Inr df \<and> map_of (data self) k = Some df"
proof -
  from k inv have "k \<in> fst ` set (data self)" by (simp add: dates_consistent_def)
  then obtain df where "map_of (data self) k = Some df"
    by (metis map_of_eq_None_iff not_Some_eq)
  with r show ?thesis by (simp add: get_latest_data_def)
qed


section \<open>Equality of labels\<close>

lemma py_eq_PStr: "py_eq x (PStr s) = (x = PStr s)" "py_eq (PStr s) x = (x = PStr s)"
  by (cases x; auto simp: py_eq_def)+

lemma py_eq_plain: "plain a \<Longrightarrow> plain b \<Longrightarrow> py_eq a b = (a = b)"
  by (cases a; cases b; simp add: py_eq_def)

lemma py_eq_sym: "py_eq a b = py_eq b a"
  by (auto simp: py_eq_def split: option.splits)

lemma py_mem_set: "py_mem x xs = (\<exists>y \<in> set xs. py_eq y x)"
  by (simp add: py_mem_def list_ex_iff)

lemma py_mem_plain: "list_all plain xs \<Longrightarrow> plain x \<Longrightarrow> py_mem x xs = (x \<in> set xs)"
  by (auto simp: py_mem_set list_all_iff py_eq_plain)

lemma py_mem_PStr: "py_mem (PStr s) xs = (PStr s \<in> set xs)"
  by (auto simp: py_mem_set py_eq_PStr)


lemma py_lookup_plain:
  "list_all plain (map fst kvs) \<Longrightarrow> plain k \<Longrightarrow> py_lookup kvs k = map_of kvs k"
  by (induction kvs) (auto simp: py_eq_plain)

lemma py_lookup_None: "py_lookup kvs k = None \<longleftrightarrow> \<not> py_mem k (map fst kvs)"
  by (induction kvs) (auto simp: py_mem_def split: if_splits)

lemma py_lookup_Some: "py_lookup kvs k = Some v \<Longrightarrow> \<exists>k'. (k', v) \<in> set kvs \<and> py_eq k' k"
  by (induction kvs) (auto split: if_splits)

lemma unique_labels_plain: "list_all plain xs \<Longrightarrow> unique_labels xs = distinct xs"
  by (induction xs) (auto simp: py_mem_plain)

section \<open>SecurityLevelData: construction\<close>

text \<open>
  C9. The validation of \<open>__init__\<close> runs as soon as one of \<open>unit\<close> and \<open>def_val\<close> is
  not \<open>None\<close> and checks the type of both. So a call that supplies only \<open>unit\<close> raises
  \<open>ValueError\<close> (for a well-formed \<open>unit\<close>, the one about the default value, since
  \<open>None\<close> is no int, float or dict), a call that supplies only \<open>def_val\<close> raises the
  \<open>ValueError\<close> about the unit (\<open>None\<close> is no str or dict), and a construction that
  succeeds was given both as \<open>None\<close> or both well-formed.
\<close>

theorem init_validates_unit_and_def_val_together:
  "(unit \<noteq> PNone \<and> def_val = PNone \<longrightarrow>
      SecurityLevelData_init w h dated_df unit def_val =
        Inl (ValueError (if type_of unit \<in> {TStr, TDict}
                         then ''Default Value must be a single INT, FLOAT or dict!''
                         else ''Unit Type must be a single STR or dict!'')))
   \<and> (unit = PNone \<and> def_val \<noteq> PNone \<longrightarrow>
      SecurityLevelData_init w h dated_df unit def_val =
        Inl (ValueError ''Unit Type must be a single STR or dict!''))
   \<and> (\<forall>h' self. SecurityLevelData_init w h dated_df unit def_val = Inr (h', self) \<longrightarrow>
        unit = PNone \<and> def_val = PNone
        \<or> type_of unit \<in> {TStr, TDict} \<and> type_of def_val \<in> {TInt, TFloat, TDict})"
proof (intro conjI impI allI)
  assume "unit \<noteq> PNone \<and> def_val = PNone"
  then show "SecurityLevelData_init w h dated_df unit def_val =
        Inl (ValueError (if type_of unit \<in> {TStr, TDict}
                         then ''Default Value must be a single INT, FLOAT or dict!''
                         else ''Unit Type must be a single STR or dict!''))"
    by (simp add: SecurityLevelData_init_def field_metadata_def Let_def)
next
  assume "unit = PNone \<and> def_val \<noteq> PNone"
  then show "SecurityLevelData_init w h dated_df unit def_val =
        Inl (ValueError ''Unit Type must be a single STR or dict!'')"
    by (simp add: SecurityLevelData_init_def field_metadata_def Let_def)
next
  fix h' self
  assume "SecurityLevelData_init w h dated_df unit def_val = Inr (h', self)"
  then have "\<exists>m. field_metadata (map fst (columns (h (data_frame dated_df)))) unit def_val = Inr m"
    by (auto simp: SecurityLevelData_init_def Let_def split: sum.splits)
  then show "unit = PNone \<and> def_val = PNone
        \<or> type_of unit \<in> {TStr, TDict} \<and> type_of def_val \<in> {TInt, TFloat, TDict}"
    by (auto simp: field_metadata_def Let_def split: if_splits)
qed

theorem init_validates_unit_and_def_val_together_witness:
  "SecurityLevelData_init ex_world ex_heap (DatedDataFrame (DT jan31) 0 (PStr ''px'')) (PStr ''USD'') PNone =
     Inl (ValueError ''Default Value must be a single INT, FLOAT or dict!'')
   \<and> SecurityLevelData_init ex_world ex_heap (DatedDataFrame (DT jan31) 0 (PStr ''px'')) PNone (PInt 0) =
     Inl (ValueError ''Unit Type must be a single STR or dict!'')
   \<and> SecurityLevelData_init ex_world ex_heap (DatedDataFrame (DT jan31) 0 (PStr ''px'')) (PDict [])
       (PDict [(PStr ''PRICE'', PInt 0)]) = Inr (ex_heap, ex_store_jan)"
proof -
  let ?d = "DatedDataFrame (DT jan31) 0 (PStr ''px'')"
  have a: "SecurityLevelData_init ex_world ex_heap ?d (PStr ''USD'') PNone =
     Inl (ValueError ''Default Value must be a single INT, FLOAT or dict!'')"
    using init_validates_unit_and_def_val_together[of "PStr ''USD''" PNone ex_world ex_heap ?d] by simp
  have b: "SecurityLevelData_init ex_world ex_heap ?d PNone (PInt 0) =
     Inl (ValueError ''Unit Type must be a single STR or dict!'')"
    using init_validates_unit_and_def_val_together[of PNone "PInt 0" ex_world ex_heap ?d] by simp
  have c: "SecurityLevelData_init ex_world ex_heap ?d (PDict []) (PDict [(PStr ''PRICE'', PInt 0)]) =
     Inr (ex_heap, ex_store_jan)"
    by (simp add: SecurityLevelData_init_def field_metadata_def Let_def dict_update_def
        dict_comp_def dict_get_def py_eq_PStr ex_heap_def ex_frame_jan_def add_data_def list_sort_def
        ex_store_jan_def ex_schema_def)
  from a b c show ?thesis by blast
qed

text \<open>
  C1. The scenario of the specification starts with a construction from the snapshot of
  2021-01-31 with \<open>def_val={'PRICE': 0}\<close> and no \<open>unit\<close>. On the code this
  construction raises \<open>ValueError\<close>, so there is no store to insert into or to query.
\<close>

theorem scenario_construction_raises:
  "SecurityLevelData_init ex_world ex_heap (DatedDataFrame (DT jan31) 0 (PStr ''px'')) PNone
     (PDict [(PStr ''PRICE'', PInt 0)]) =
     Inl (ValueError ''Unit Type must be a single STR or dict!'')"
  by (simp add: SecurityLevelData_init_def field_metadata_def Let_def)

text \<open>
  With an empty \<open>unit\<close> mapping supplied as well, the rest of the scenario is as the
  specification has it: the default 0 for the absent row B on 2021-02-28, and the January
  price of A for the query of 2021-02-15.
\<close>

lemma scenario_with_both_arguments:
  "SecurityLevelData_init ex_world ex_heap (DatedDataFrame (DT jan31) 0 (PStr ''px'')) (PDict [])
       (PDict [(PStr ''PRICE'', PInt 0)]) = Inr (ex_heap, ex_store_jan)
   \<and> add_data ex_world ex_store_jan (DatedDataFrame (DT feb28) 1 (PStr ''px'')) =
       (ex_store_feb, None)
   \<and> get_value ex_world ex_heap ex_store_feb (PStr ''B'') (PStr ''PRICE'') (Some (Str ''2021-02-28''))
       = Inr (PInt 0)
   \<and> get_value ex_world ex_heap ex_store_feb (PStr ''A'') (PStr ''PRICE'') (Some (Str ''2021-02-15''))
       = Inr (PInt 10)"
proof (intro conjI)
  show "SecurityLevelData_init ex_world ex_heap (DatedDataFrame (DT jan31) 0 (PStr ''px'')) (PDict [])
       (PDict [(PStr ''PRICE'', PInt 0)]) = Inr (ex_heap, ex_store_jan)"
    by (simp add: SecurityLevelData_init_def field_metadata_def Let_def dict_update_def
        dict_comp_def dict_get_def py_eq_PStr ex_heap_def ex_frame_jan_def add_data_def list_sort_def
        ex_store_jan_def ex_schema_def)
  show "add_data ex_world ex_store_jan (DatedDataFrame (DT feb28) 1 (PStr ''px'')) =
       (ex_store_feb, None)"
    by (simp add: add_data_def list_sort_def ex_store_jan_def ex_store_feb_def jan31_def feb28_def)
  show "get_value ex_world ex_heap ex_store_feb (PStr ''B'') (PStr ''PRICE'') (Some (Str ''2021-02-28''))
       = Inr (PInt 0)"
    by code_simp
  show "get_value ex_world ex_heap ex_store_feb (PStr ''A'') (PStr ''PRICE'') (Some (Str ''2021-02-15''))
       = Inr (PInt 10)"
    by code_simp
qed

lemma add_data_first:
  "data self = [] \<Longrightarrow>
   add_data w self dated_df =
     (self\<lparr>data := [(date dated_df, data_frame dated_df)], data_dates := [date dated_df]\<rparr>,
      None)"
  by (cases "date dated_df") (simp_all add: add_data_def list_sort_def)


lemma init_dates_consistent:
  assumes "SecurityLevelData_init w h dated_df unit def_val = Inr (h', self)"
  shows "dates_consistent self \<and> data self = [(date dated_df, data_frame dated_df)]
         \<and> data_dates self = [date dated_df]"
proof -
  from assms obtain sch where
    "add_data w \<lparr>coll_DATA_ID = DATA_ID dated_df, data = [], data_dates = [], schema = sch\<rparr>
       dated_df = (self, None)"
    by (auto simp: SecurityLevelData_init_def Let_def
             split: sum.splits prod.splits if_splits option.splits)
  then have "self = \<lparr>coll_DATA_ID = DATA_ID dated_df, data = [(date dated_df, data_frame dated_df)],
                     data_dates = [date dated_df], schema = sch\<rparr>"
    by (simp add: add_data_first)
  then show ?thesis by (simp add: dates_consistent_def)
qed



section \<open>SecurityLevelData: get\_value\<close>

lemma py_eq_trans: "py_eq a b \<Longrightarrow> py_eq b c \<Longrightarrow> py_eq a c"
  by (auto simp: py_eq_def split: option.splits)

lemma py_lookup_unique:
  "unique_labels (map fst kvs) \<Longrightarrow> (k', v) \<in> set kvs \<Longrightarrow> py_eq k' k \<Longrightarrow>
   py_lookup kvs k = Some v"
proof (induction kvs)
  case Nil
  then show ?case by simp
next
  case (Cons kv kvs)
  obtain a b where kv: "kv = (a, b)" by (cases kv)
  show ?case
  proof (cases "(k', v) = kv")
    case True
    with Cons.prems(3) kv show ?thesis by simp
  next
    case False
    with Cons.prems(2) have mem: "(k', v) \<in> set kvs" by simp
    have na: "\<not> py_eq a k"
    proof
      assume "py_eq a k"
      with Cons.prems(3) have "py_eq k' a" by (metis py_eq_trans py_eq_sym)
      with mem have "py_mem a (map fst kvs)" by (force simp: py_mem_set)
      with Cons.prems(1) kv show False by simp
    qed
    from Cons.prems(1) have "unique_labels (map fst kvs)" by simp
    from Cons.IH[OF this mem Cons.prems(3)] na kv show ?thesis by simp
  qed
qed

lemma positions_empty: "positions labels l = [] \<longleftrightarrow> \<not> py_mem l labels"
  by (auto simp: positions_def filter_empty_conv py_mem_set all_set_conv_all_nth)

lemma loc_cell_KeyError:
  "loc_cell df r c = Inl e \<longleftrightarrow>
     e = KeyError \<and> (py_lookup (columns df) c = None \<or> \<not> py_mem r (index df))"
proof (cases "py_lookup (columns df) c")
  case None
  then show ?thesis by (auto simp: loc_cell_def)
next
  case (Some col)
  show ?thesis
  proof (cases "py_mem r (index df)")
    case True
    then have "positions (index df) r \<noteq> []" by (simp add: positions_empty)
    with Some True show ?thesis
      by (auto simp: loc_cell_def split: list.splits prod.splits)
  next
    case False
    then have "positions (index df) r = []" by (simp add: positions_empty)
    with Some False show ?thesis
      by (auto simp: loc_cell_def split: prod.splits)
  qed
qed

lemma loc_cell_single:
  "py_lookup (columns df) c = Some (dt, vals) \<Longrightarrow> positions (index df) r = [i] \<Longrightarrow>
   loc_cell df r c = Inr (vals ! i)"
  by (simp add: loc_cell_def)

text \<open>A row label is found by \<open>==\<close>: the float 1.0 finds the row labelled by the int 1.\<close>

lemma loc_cell_float_key:
  "loc_cell \<lparr>index_name = PNone, index = [PInt 1, PInt 2],
             columns = [(PStr ''PRICE'', Int64, [PInt 10, PInt 20])]\<rparr>
     (PFloat 1) (PStr ''PRICE'') = Inr (PInt 10)"
  by (simp add: loc_cell_def positions_def py_eq_def upt_rec)

text \<open>
  C6, as the code has it. The row labels and column labels of the resolved snapshot,
  \<open>sec_id\<close> and \<open>field\<close> are single ints, floats or strings, compared by \<open>==\<close>, and
  the column labels of the snapshot do not repeat. For a query date that resolves to a
  snapshot: \<open>get_value\<close> raises \<open>ValueError\<close> when the field is not a declared field
  name, and otherwise does not raise. For a declared field it returns the cell of the
  snapshot when the snapshot has a column labelled by the field and \<open>sec_id\<close> is a row
  label (in the index once), and the default value of the field when \<open>sec_id\<close> is not a
  row label or when the snapshot has no column labelled by the field.
\<close>

theorem get_value_cell_or_default:
  assumes res: "get_latest_data w self date0 = Inr df"
    and key: "ordinary sec_id" and fld: "ordinary field"
    and rows: "list_all ordinary (index (h df))"
    and cols: "list_all ordinary (map fst (columns (h df)))"
    and uniq: "unique_labels (map fst (columns (h df)))"
  shows "(\<not> py_mem field (get_field_names self) \<longrightarrow>
            get_value w h self sec_id field date0 =
              Inl (ValueError ''Field not found in data schema!''))
     \<and> (py_mem field (get_field_names self) \<longrightarrow>
          (\<exists>v. get_value w h self sec_id field date0 = Inr v)
          \<and> (\<not> py_mem sec_id (index (h df)) \<or> \<not> py_mem field (map fst (columns (h df))) \<longrightarrow>
                (\<exists>fd. py_lookup (FIELDS (schema self)) field = Some fd
                      \<and> get_value w h self sec_id field date0 = Inr (DEF_VAL fd)))
          \<and> (\<forall>c dt vals i. (c, dt, vals) \<in> set (columns (h df)) \<and> py_eq c field
                \<and> positions (index (h df)) sec_id = [i] \<longrightarrow>
                get_value w h self sec_id field date0 = Inr (vals ! i)))"
proof (intro conjI impI allI)
  assume "\<not> py_mem field (get_field_names self)"
  then show "get_value w h self sec_id field date0 =
              Inl (ValueError ''Field not found in data schema!'')"
    using res by (simp add: get_value_def)
next
  assume f: "py_mem field (get_field_names self)"
  then obtain fd where fd: "py_lookup (FIELDS (schema self)) field = Some fd"
    using py_lookup_None[of "FIELDS (schema self)" field]
    by (auto simp: get_field_names_def)
  show "\<exists>v. get_value w h self sec_id field date0 = Inr v"
  proof (cases "loc_cell (h df) sec_id field")
    case (Inl e)
    then have "e = KeyError" by (simp add: loc_cell_KeyError)
    with Inl f fd res show ?thesis by (simp add: get_value_def)
  next
    case (Inr v)
    with f res show ?thesis by (simp add: get_value_def)
  qed
  {
    assume "\<not> py_mem sec_id (index (h df)) \<or> \<not> py_mem field (map fst (columns (h df)))"
    then have "loc_cell (h df) sec_id field = Inl KeyError"
      by (auto simp: loc_cell_KeyError py_lookup_None)
    with f fd res
    show "\<exists>fd. py_lookup (FIELDS (schema self)) field = Some fd
                      \<and> get_value w h self sec_id field date0 = Inr (DEF_VAL fd)"
      by (simp add: get_value_def)
  }
  {
    fix c dt vals i
    assume a: "(c, dt, vals) \<in> set (columns (h df)) \<and> py_eq c field
                \<and> positions (index (h df)) sec_id = [i]"
    then have "py_lookup (columns (h df)) field = Some (dt, vals)"
      using py_lookup_unique[OF uniq, of c "(dt, vals)" field] by simp
    with a have "loc_cell (h df) sec_id field = Inr (vals ! i)"
      by (simp add: loc_cell_single)
    with f res show "get_value w h self sec_id field date0 = Inr (vals ! i)"
      by (simp add: get_value_def)
  }
qed

theorem get_value_cell_or_default_witness:
  "get_latest_data ex_world ex_store_feb (Some (Str ''2021-02-28'')) = Inr 1
   \<and> list_all ordinary (index (ex_heap 1))
   \<and> list_all ordinary (map fst (columns (ex_heap 1)))
   \<and> unique_labels (map fst (columns (ex_heap 1)))
   \<and> ordinary (PStr ''A'') \<and> ordinary (PStr ''B'')
   \<and> ordinary (PStr ''PRICE'') \<and> ordinary (PStr ''VOLUME'')
   \<and> get_value ex_world ex_heap ex_store_feb (PStr ''A'') (PStr ''PRICE'') (Some (Str ''2021-02-28''))
       = Inr (PInt 11)
   \<and> get_value ex_world ex_heap ex_store_feb (PStr ''B'') (PStr ''PRICE'') (Some (Str ''2021-02-28''))
       = Inr (PInt 0)
   \<and> get_value ex_world ex_heap ex_store_feb (PStr ''A'') (PStr ''VOLUME'') (Some (Str ''2021-02-28''))
       = Inl (ValueError ''Field not found in data schema!'')"
proof -
  let ?q = "Some (Str ''2021-02-28'')"
  have res: "get_latest_data ex_world ex_store_feb ?q = Inr 1"
    by code_simp
  have rows: "list_all ordinary (index (ex_heap 1))"
    by (simp add: ex_heap_def ex_frame_feb_def)
  have cols: "list_all ordinary (map fst (columns (ex_heap 1)))"
    by (simp add: ex_heap_def ex_frame_feb_def)
  have uniq: "unique_labels (map fst (columns (ex_heap 1)))"
    by (simp add: ex_heap_def ex_frame_feb_def py_mem_def)
  have names: "get_field_names ex_store_feb = [PStr ''PRICE'']"
    by (simp add: get_field_names_def ex_store_feb_def ex_schema_def)
  have fields: "py_lookup (FIELDS (schema ex_store_feb)) (PStr ''PRICE'') =
                  Some (DataFrameField (PStr ''PRICE'') PNone (PInt 0))"
    by (simp add: ex_store_feb_def ex_schema_def py_eq_PStr)
  have a: "get_value ex_world ex_heap ex_store_feb (PStr ''A'') (PStr ''PRICE'') ?q = Inr (PInt 11)"
  proof -
    have c: "(PStr ''PRICE'', Float64, [PInt 11]) \<in> set (columns (ex_heap 1))"
      by (simp add: ex_heap_def ex_frame_feb_def)
    have p: "positions (index (ex_heap 1)) (PStr ''A'') = [0]"
      by (simp add: ex_heap_def ex_frame_feb_def positions_def py_eq_PStr)
    from get_value_cell_or_default[where h = ex_heap and sec_id = "PStr ''A''"
        and field = "PStr ''PRICE''", OF res _ _ rows cols uniq] names c p
    show ?thesis by (simp add: py_mem_def py_eq_PStr)
  qed
  have b: "get_value ex_world ex_heap ex_store_feb (PStr ''B'') (PStr ''PRICE'') ?q = Inr (PInt 0)"
  proof -
    have n: "\<not> py_mem (PStr ''B'') (index (ex_heap 1))"
      by (simp add: ex_heap_def ex_frame_feb_def py_mem_def py_eq_PStr)
    from get_value_cell_or_default[where h = ex_heap and sec_id = "PStr ''B''"
        and field = "PStr ''PRICE''", OF res _ _ rows cols uniq] names n fields
    show ?thesis by (simp add: py_mem_def py_eq_PStr)
  qed
  have c: "get_value ex_world ex_heap ex_store_feb (PStr ''A'') (PStr ''VOLUME'') ?q =
             Inl (ValueError ''Field not found in data schema!'')"
    using get_value_cell_or_default[where h = ex_heap and sec_id = "PStr ''A''"
        and field = "PStr ''VOLUME''", OF res _ _ rows cols uniq] names
    by (simp add: py_mem_def py_eq_PStr)
  from res rows cols uniq a b c show ?thesis by simp
qed

text \<open>
  C6, as the claim has it, fails when the resolved snapshot lacks the column. The store is
  built from the January prices (declared field \<open>PRICE\<close>, default 0); a snapshot with
  the single column \<open>VOLUME\<close> and the row A is inserted for 2021-02-28. Row A is in the
  index of the snapshot that the query resolves to, yet the value returned for the declared
  field \<open>PRICE\<close> is the default 0, which is no cell of that snapshot.
\<close>

theorem get_value_missing_column_counterexample:
  "add_data ex_world ex_store_jan (DatedDataFrame (DT feb28) 3 (PStr ''px'')) =
     (ex_store_vol, None)
   \<and> PStr ''PRICE'' \<in> set (get_field_names ex_store_vol)
   \<and> get_latest_data ex_world ex_store_vol (Some (Str ''2021-02-28'')) = Inr 3
   \<and> index (ex_heap_vol 3) = [PStr ''A'']
   \<and> columns (ex_heap_vol 3) = [(PStr ''VOLUME'', Int64, [PInt 700])]
   \<and> get_value ex_world ex_heap_vol ex_store_vol (PStr ''A'') (PStr ''PRICE'')
        (Some (Str ''2021-02-28'')) = Inr (PInt 0)"
proof (intro conjI)
  show "add_data ex_world ex_store_jan (DatedDataFrame (DT feb28) 3 (PStr ''px'')) =
     (ex_store_vol, None)"
    by (simp add: add_data_def list_sort_def ex_store_jan_def ex_store_vol_def jan31_def feb28_def)
  show "PStr ''PRICE'' \<in> set (get_field_names ex_store_vol)"
    by (simp add: get_field_names_def ex_store_vol_def ex_schema_def)
  show "get_latest_data ex_world ex_store_vol (Some (Str ''2021-02-28'')) = Inr 3"
    by code_simp
  show "index (ex_heap_vol 3) = [PStr ''A'']"
    by (simp add: ex_heap_vol_def ex_frame_vol_def)
  show "columns (ex_heap_vol 3) = [(PStr ''VOLUME'', Int64, [PInt 700])]"
    by (simp add: ex_heap_vol_def ex_frame_vol_def)
  show "get_value ex_world ex_heap_vol ex_store_vol (PStr ''A'') (PStr ''PRICE'')
        (Some (Str ''2021-02-28'')) = Inr (PInt 0)"
    by code_simp
qed

section \<open>apply\_columnwise: one column against several\<close>

lemma positions_plain:
  assumes "list_all plain labels" "plain l"
  shows "positions labels l = filter (\<lambda>j. labels ! j = l) [0..<length labels]"
  unfolding positions_def using assms
  by (intro filter_cong) (auto simp: list_all_length py_eq_plain)

lemma positions_distinct:
  assumes "distinct labels" "list_all plain labels" "i < length labels"
  shows "positions labels (labels ! i) = [i]"
proof -
  have pl: "plain (labels ! i)" using assms(2,3) by (simp add: list_all_length)
  have "filter (\<lambda>j. labels ! j = labels ! i) [0..<length labels] = filter (\<lambda>j. j = i) [0..<length labels]"
    using assms by (intro filter_cong) (auto simp: nth_eq_iff_index_eq)
  also have "\<dots> = [i]"
    using assms(3) by (induction labels rule: rev_induct) (auto simp: less_Suc_eq)
  finally show ?thesis by (simp add: positions_plain[OF assms(2) pl])
qed

lemma positions_member:
  assumes "distinct labels" "list_all plain labels" "l \<in> set labels"
  shows "positions labels l = [label_pos labels l]"
    and "label_pos labels l < length labels" and "labels ! label_pos labels l = l"
proof -
  from assms(3) obtain i where i: "i < length labels" "labels ! i = l"
    by (auto simp: in_set_conv_nth)
  have p: "positions labels l = [i]"
    using positions_distinct[OF assms(1,2) i(1)] i(2) by simp
  then have lp: "label_pos labels l = i" by (simp add: label_pos_def)
  show "positions labels l = [label_pos labels l]" using p lp by simp
  show "label_pos labels l < length labels" using lp i by simp
  show "labels ! label_pos labels l = l" using lp i by simp
qed

lemma loc_rows_aligned:
  assumes col: "py_lookup (columns df) c = Some (dt, vals)"
    and d: "distinct (index df)" and pi: "list_all plain (index df)"
    and sub: "set labels \<subseteq> set (index df)"
  shows "loc_rows df labels c =
           Inr \<lparr>s_name = c, s_index = labels,
                s_values = map (\<lambda>l. vals ! label_pos (index df) l) labels, s_dtype = dt\<rparr>"
proof -
  have pl: "list_all plain labels" using sub pi by (auto simp: list_all_iff)
  have all: "list_all (\<lambda>l. py_mem l (index df)) labels"
    using sub pl pi by (auto simp: list_all_iff py_mem_plain)
  have ps: "concat (map (positions (index df)) labels) = map (label_pos (index df)) labels"
    using sub by (induction labels) (simp_all add: positions_member(1)[OF d pi])
  have idx: "map (\<lambda>l. index df ! label_pos (index df) l) labels = labels"
    using sub by (induction labels) (simp_all add: positions_member(3)[OF d pi])
  show ?thesis
    using col all by (simp add: loc_rows_def ps idx comp_def)
qed

lemma loc_rows_missing:
  assumes "\<not> set labels \<subseteq> set (index df)"
    and "list_all plain labels" "list_all plain (index df)"
  shows "loc_rows df labels c = Inl KeyError"
proof -
  have "\<not> list_all (\<lambda>l. py_mem l (index df)) labels"
    using assms by (auto simp: list_all_iff py_mem_plain)
  then show ?thesis by (simp add: loc_rows_def split: option.splits prod.splits)
qed

lemma map_err_enumerate:
  assumes "\<And>i x. (i, x) \<in> set (enumerate n xs) \<Longrightarrow> f x = g (i, x)"
  shows "map_err f xs = map_err g (enumerate n xs)"
  using assms
proof (induction xs arbitrary: n)
  case Nil
  then show ?case by simp
next
  case (Cons x xs)
  have "f x = g (n, x)" using Cons.prems by simp
  moreover have "map_err f xs = map_err g (enumerate (Suc n) xs)"
    using Cons.prems by (intro Cons.IH) simp
  ultimately show ?case by (simp split: sum.split)
qed

lemma get_loc_distinct:
  assumes "distinct (map fst (columns df))" "list_all plain (map fst (columns df))"
    and "i < length (columns df)"
  shows "get_loc df (fst (columns df ! i)) = Inr i"
proof -
  have "positions (map fst (columns df)) (map fst (columns df) ! i) = [i]"
    using assms by (intro positions_distinct) simp_all
  then show ?thesis using assms(3) by (simp add: get_loc_def)
qed

text \<open>The broadcast of a single column over distinct row labels.\<close>

lemma broadcast_Inr:
  assumes "columns df = [(c, dt, vals)]" "0 < n"
    and "distinct (index df)" "list_all plain (index df)"
  shows "broadcast df n = Inr (df\<lparr>columns := map (\<lambda>i. (PInt (int i), dt, vals)) [0..<n]\<rparr>)"
  using assms by (simp add: broadcast_def unique_labels_plain)

lemma broadcast_column:
  assumes "i < n"
  shows "py_lookup (map (\<lambda>i. (PInt (int i), dt, vals)) [0..<n]) (PInt (int i)) = Some (dt, vals)"
proof -
  have "map_of (map (\<lambda>i. (PInt (int i), dt, vals)) [0..<n]) (PInt (int i)) = Some (dt, vals)"
    using assms by (intro map_of_is_SomeI) (auto simp: distinct_map inj_on_def comp_def)
  moreover have "list_all plain (map fst (map (\<lambda>i. (PInt (int i), dt, vals)) [0..<n]))"
    by (simp add: list_all_iff)
  ultimately show ?thesis by (simp add: py_lookup_plain)
qed

lemma frame_apply_labels:
  "frame_apply df f = Inr res \<Longrightarrow> map fst res = map fst (columns df)"
proof -
  have "\<And>res. map_err (\<lambda>col. case f (column_series df col) of Inl e \<Rightarrow> Inl e
                                | Inr y \<Rightarrow> Inr (fst col, y)) cols = Inr res
          \<Longrightarrow> map fst res = map fst cols" for cols
    by (induction cols) (auto split: sum.splits)
  then show "frame_apply df f = Inr res \<Longrightarrow> map fst res = map fst (columns df)"
    by (auto simp: frame_apply_def comp_def split: if_splits)
qed

lemma unary_func_broadcast:
  assumes b: "b = left\<lparr>columns := map (\<lambda>i. (PInt (int i), ldt, lvals))
                                       [0..<length (columns right)]\<rparr>"
    and labels: "distinct (index left)" "list_all plain (index left)"
                "set (index right) \<subseteq> set (index left)"
    and cols: "distinct (map fst (columns right))" "list_all plain (map fst (columns right))"
    and i: "i < length (columns right)" and col: "columns right ! i = (c, dt, vals)"
  shows "make_unary_func b right binary_func False True (column_series right (c, dt, vals)) =
         binary_func
           (ASeries \<lparr>s_name = PInt (int i), s_index = index right,
                     s_values = map (\<lambda>l. lvals ! label_pos (index left) l) (index right),
                     s_dtype = ldt\<rparr>)
           (ASeries \<lparr>s_name = c, s_index = index right, s_values = vals, s_dtype = dt\<rparr>)"
proof -
  have gl: "get_loc right c = Inr i"
    using get_loc_distinct[OF cols i] col by simp
  have cl: "column_label b i = Inr (PInt (int i))"
    using i by (simp add: column_label_def b)
  have lab: "left_label_at b right c = Inr (PInt (int i))"
    by (simp add: left_label_at_def gl cl)
  have bc: "py_lookup (columns b) (PInt (int i)) = Some (ldt, lvals)"
    using broadcast_column[OF i] by (simp add: b)
  have bi: "index b = index left" by (simp add: b)
  have lr: "loc_rows b (index right) (PInt (int i)) =
      Inr \<lparr>s_name = PInt (int i), s_index = index right,
           s_values = map (\<lambda>l. lvals ! label_pos (index left) l) (index right), s_dtype = ldt\<rparr>"
    using loc_rows_aligned[OF bc, of "index right"] labels by (simp add: bi)
  show ?thesis
    by (simp add: make_unary_func_def column_series_def lab lr)
qed

text \<open>
  C7, as the code has it. With \<open>ignore_columns=True\<close> and the default
  \<open>ignore_index=False\<close>, a single-column \<open>left\<close> and a \<open>right\<close> of \<open>n > 1\<close>
  distinctly labelled columns and as many rows, at least one, where the labels are ints
  and strings, the row labels of \<open>left\<close> are distinct and every row label of \<open>right\<close>
  is one of them: the column of \<open>left\<close> is broadcast, \<open>binary_func\<close> is called once
  per column of \<open>right\<close>, in order, on the cells of the column of \<open>left\<close> taken at the
  row labels of \<open>right\<close> and on that column of \<open>right\<close>, and the result has the \<open>n\<close>
  column labels of \<open>right\<close>. An exception of \<open>binary_func\<close> is the result of the call.
\<close>

theorem apply_columnwise_broadcast_left:
  assumes one: "columns left = [(lc, ldt, lvals)]"
    and n: "1 < length (columns right)"
    and rows: "length (index left) = length (index right)"
    and nonempty: "index right \<noteq> []"
    and labels: "distinct (index left)" "set (index right) \<subseteq> set (index left)"
    and cols: "distinct (map fst (columns right))"
    and plain_labels: "list_all plain (index left)" "list_all plain (map fst (columns right))"
  shows "apply_columnwise (TFrame left) (TFrame right) binary_func False True =
     map_err
       (\<lambda>(i, c, dt, vals).
          case binary_func
                 (ASeries \<lparr>s_name = PInt (int i), s_index = index right,
                           s_values = map (\<lambda>l. lvals ! label_pos (index left) l) (index right),
                           s_dtype = ldt\<rparr>)
                 (ASeries \<lparr>s_name = c, s_index = index right, s_values = vals, s_dtype = dt\<rparr>) of
            Inl e \<Rightarrow> Inl e
          | Inr y \<Rightarrow> Inr (c, y))
       (enumerate 0 (columns right))
   \<and> (\<forall>res. apply_columnwise (TFrame left) (TFrame right) binary_func False True = Inr res
          \<longrightarrow> map fst res = map fst (columns right))"
proof -
  let ?n = "length (columns right)"
  let ?b = "left\<lparr>columns := map (\<lambda>i. (PInt (int i), ldt, lvals)) [0..<?n]\<rparr>"
  have "0 < ?n" using n by linarith
  then have br: "broadcast left ?n = Inr ?b"
    by (rule broadcast_Inr[OF one _ labels(1) plain_labels(1)])
  have ac: "apply_columnwise (TFrame left) (TFrame right) binary_func False True =
      frame_apply right (make_unary_func ?b right binary_func False True)"
    using one n rows by (simp add: apply_columnwise_def as_frame_def Let_def br)
  have "columns right \<noteq> []" using n by (cases "columns right") simp_all
  with nonempty have ne: "\<not> (index right = [] \<or> columns right = [])" by simp
  have eq: "frame_apply right (make_unary_func ?b right binary_func False True) =
     map_err
       (\<lambda>(i, c, dt, vals).
          case binary_func
                 (ASeries \<lparr>s_name = PInt (int i), s_index = index right,
                           s_values = map (\<lambda>l. lvals ! label_pos (index left) l) (index right),
                           s_dtype = ldt\<rparr>)
                 (ASeries \<lparr>s_name = c, s_index = index right, s_values = vals, s_dtype = dt\<rparr>) of
            Inl e \<Rightarrow> Inl e
          | Inr y \<Rightarrow> Inr (c, y))
       (enumerate 0 (columns right))"
    unfolding frame_apply_def if_not_P[OF ne]
  proof (rule map_err_enumerate)
    fix i x
    assume "(i, x) \<in> set (enumerate 0 (columns right))"
    then have i: "i < length (columns right)" and x: "columns right ! i = x"
      by (auto simp: in_set_enumerate_eq)
    obtain c dt vals where cx: "x = (c, dt, vals)" by (cases x) auto
    from unary_func_broadcast[OF refl labels(1) plain_labels(1) labels(2) cols plain_labels(2) i,
        of c dt vals ldt lvals binary_func] x cx
    show "(case make_unary_func ?b right binary_func False True (column_series right x) of
             Inl e \<Rightarrow> Inl e | Inr y \<Rightarrow> Inr (fst x, y)) =
          (case (i, x) of
             (i, c, dt, vals) \<Rightarrow>
               case binary_func
                 (ASeries \<lparr>s_name = PInt (int i), s_index = index right,
                           s_values = map (\<lambda>l. lvals ! label_pos (index left) l) (index right),
                           s_dtype = ldt\<rparr>)
                 (ASeries \<lparr>s_name = c, s_index = index right, s_values = vals, s_dtype = dt\<rparr>) of
            Inl e \<Rightarrow> Inl e
          | Inr y \<Rightarrow> Inr (c, y))"
      by (simp split: sum.split)
  qed
  have lab: "\<forall>res. apply_columnwise (TFrame left) (TFrame right) binary_func False True = Inr res
          \<longrightarrow> map fst res = map fst (columns right)"
    unfolding ac by (auto dest: frame_apply_labels)
  show ?thesis using ac eq lab by simp
qed

theorem apply_columnwise_broadcast_left_witness:
  "columns ex_left = [(PStr ''x'', Int64, [PInt 1, PInt 2])]
   \<and> length (index ex_left) = length (index ex_right)
   \<and> index ex_right \<noteq> []
   \<and> distinct (index ex_left)
   \<and> set (index ex_right) \<subseteq> set (index ex_left)
   \<and> distinct (map fst (columns ex_right))
   \<and> list_all plain (index ex_left)
   \<and> list_all plain (map fst (columns ex_right))
   \<and> apply_columnwise (TFrame ex_left) (TFrame ex_right) ex_pair False True =
       Inr [(PStr ''a'', AArray Object [PSeries [PInt 2, PInt 10], PSeries [PInt 1, PInt 20]]),
            (PStr ''b'', AArray Object [PSeries [PInt 2, PInt 30], PSeries [PInt 1, PInt 40]])]"
proof -
  have one: "columns ex_left = [(PStr ''x'', Int64, [PInt 1, PInt 2])]"
    by (simp add: ex_left_def)
  have n: "1 < length (columns ex_right)" by (simp add: ex_right_def)
  have rows: "length (index ex_left) = length (index ex_right)"
    by (simp add: ex_left_def ex_right_def)
  have ne: "index ex_right \<noteq> []" by (simp add: ex_right_def)
  have d: "distinct (index ex_left)" by (simp add: ex_left_def)
  have sub: "set (index ex_right) \<subseteq> set (index ex_left)" by (simp add: ex_left_def ex_right_def)
  have cols: "distinct (map fst (columns ex_right))" by (simp add: ex_right_def)
  have p1: "list_all plain (index ex_left)" by (simp add: ex_left_def)
  have p2: "list_all plain (map fst (columns ex_right))" by (simp add: ex_right_def)
  have lp: "map (\<lambda>l. [PInt 1, PInt 2] ! label_pos (index ex_left) l) (index ex_right) = [PInt 2, PInt 1]"
    by (simp add: label_pos_def positions_def py_eq_def ex_left_def ex_right_def)
  from apply_columnwise_broadcast_left[OF one n rows ne d sub cols p1 p2, of ex_pair]
  have "apply_columnwise (TFrame ex_left) (TFrame ex_right) ex_pair False True =
       Inr [(PStr ''a'', AArray Object [PSeries [PInt 2, PInt 10], PSeries [PInt 1, PInt 20]]),
            (PStr ''b'', AArray Object [PSeries [PInt 2, PInt 30], PSeries [PInt 1, PInt 40]])]"
    unfolding lp by (simp add: ex_right_def ex_pair_def arg_values_def)
  with one rows ne d sub cols p1 p2 show ?thesis by blast
qed

text \<open>
  When \<open>right\<close> has a row label that \<open>left\<close> lacks, the call raises \<open>KeyError\<close>,
  whatever the row counts.
\<close>

lemma apply_columnwise_missing_label:
  assumes one: "columns left = [(lc, ldt, lvals)]"
    and n: "1 < length (columns right)"
    and rows: "length (index left) = length (index right)"
    and d: "distinct (index left)"
    and plain_labels: "list_all plain (index left)" "list_all plain (index right)"
                      "list_all plain (map fst (columns right))"
    and missing: "\<not> set (index right) \<subseteq> set (index left)"
  shows "apply_columnwise (TFrame left) (TFrame right) binary_func False True = Inl KeyError"
proof -
  let ?n = "length (columns right)"
  let ?b = "left\<lparr>columns := map (\<lambda>i. (PInt (int i), ldt, lvals)) [0..<?n]\<rparr>"
  obtain col cols where cs: "columns right = col # cols"
    using n by (cases "columns right") auto
  obtain c dt vals where col: "col = (c, dt, vals)" by (cases col) auto
  have "0 < ?n" using n by linarith
  then have br: "broadcast left ?n = Inr ?b"
    by (rule broadcast_Inr[OF one _ d plain_labels(1)])
  have ac: "apply_columnwise (TFrame left) (TFrame right) binary_func False True =
      frame_apply right (make_unary_func ?b right binary_func False True)"
    using one n rows by (simp add: apply_columnwise_def as_frame_def Let_def br)
  have ne: "\<not> (index right = [] \<or> columns right = [])"
    using missing cs by auto
  have pc: "py_eq c c" using plain_labels(3) cs col by (simp add: py_eq_plain)
  have p: "positions (map fst (columns right)) c =
             0 # filter (\<lambda>i. py_eq ((map fst (columns right)) ! i) c) [1..<?n]"
    unfolding positions_def using cs col pc by (simp add: upt_conv_Cons del: upt_Suc)
  have gl: "get_loc right c = Inr 0" by (simp add: get_loc_def p)
  have cl: "column_label ?b 0 = Inr (PInt 0)"
    by (simp add: column_label_def cs upt_conv_Cons del: upt_Suc)
  have lr: "loc_rows ?b (index right) (PInt 0) = Inl KeyError"
    using missing plain_labels(1,2) by (intro loc_rows_missing) simp_all
  have "make_unary_func ?b right binary_func False True (column_series right col) = Inl KeyError"
    by (simp add: make_unary_func_def column_series_def col left_label_at_def gl cl lr)
  then have "frame_apply right (make_unary_func ?b right binary_func False True) = Inl KeyError"
    unfolding frame_apply_def if_not_P[OF ne] by (simp add: cs)
  with ac show ?thesis by simp
qed

text \<open>
  On tables without rows \<open>binary_func\<close> is not called: the result is the columns of
  \<open>right\<close> as they are.
\<close>

lemma apply_columnwise_no_rows:
  assumes one: "columns left = [(lc, ldt, lvals)]"
    and n: "1 < length (columns right)"
    and rows: "index left = []" "index right = []"
  shows "apply_columnwise (TFrame left) (TFrame right) binary_func False True =
           Inr (map (\<lambda>col. (fst col, ASeries (column_series right col))) (columns right))"
  using assms by (simp add: apply_columnwise_def as_frame_def Let_def broadcast_def frame_apply_def)

text \<open>When a row label of \<open>left\<close> repeats, the broadcast raises.\<close>

lemma apply_columnwise_repeated_row_label:
  assumes one: "length (columns left) = 1"
    and n: "1 < length (columns right)"
    and rows: "length (index left) = length (index right)"
    and rep: "\<not> unique_labels (index left)"
  shows "apply_columnwise (TFrame left) (TFrame right) binary_func False True =
           Inl InvalidIndexError"
proof -
  have "columns right \<noteq> []" using n by (cases "columns right") simp_all
  with assms show ?thesis
    by (simp add: apply_columnwise_def as_frame_def Let_def broadcast_def)
qed

text \<open>
  C7, as the claim has it, fails when the tables have as many rows but other row labels:
  the selection of the rows of \<open>left\<close> by the labels of \<open>right\<close> raises \<open>KeyError\<close>.
\<close>

theorem apply_columnwise_labels_counterexample:
  "length (columns ex_left) = 1 \<and> length (columns ex_right_far) = 2
   \<and> length (index ex_left) = length (index ex_right_far)
   \<and> apply_columnwise (TFrame ex_left) (TFrame ex_right_far) ex_pair False True = Inl KeyError"
  by (simp add: ex_left_def ex_right_far_def apply_columnwise_def as_frame_def Let_def
      frame_apply_def make_unary_func_def left_label_at_def get_loc_def column_label_def
      positions_def broadcast_def column_series_def loc_rows_def py_eq_def py_mem_def)

section \<open>dtype\_specific\_binary\<close>

text \<open>
  When no test holds for both dtypes, the call raises under \<open>errors='raise'\<close> and
  otherwise warns and returns NaNs on the row labels of \<open>right\<close>; so for a numeric
  against a string column.
\<close>

lemma dtype_specific_binary_mismatch:
  assumes "\<not> (is_numeric_dtype (s_dtype left) \<and> is_numeric_dtype (s_dtype right))"
    and "\<not> ((is_datetime64_any_dtype (s_dtype left) \<or> is_timedelta64_dtype (s_dtype left))
             \<and> (is_datetime64_any_dtype (s_dtype right) \<or> is_timedelta64_dtype (s_dtype right)))"
    and "\<not> (is_string_dtype (s_dtype left) \<and> is_string_dtype (s_dtype right))"
    and "\<not> (is_categorical_dtype (s_dtype left) \<and> is_categorical_dtype (s_dtype right))"
    and "\<not> (is_interval_dtype (s_dtype left) \<and> is_interval_dtype (s_dtype right))"
  shows "dtype_specific_binary left right numerics datetimes bools strings categoricals intervals errors =
     (if errors = ''raise''
      then Inl (ValueError ''left and right do not have matching supported dtypes'')
      else Inr (Warned ''do not have comparable dtypes, returning NaNs''
                  \<lparr>s_name = PNone, s_index = s_index right,
                   s_values = replicate (length (s_index right)) PNaN, s_dtype = Float64\<rparr>))"
proof -
  have b: "\<not> (is_bool_dtype (s_dtype left) \<and> is_bool_dtype (s_dtype right))"
    using assms(1) by (auto simp: is_bool_dtype_def is_numeric_dtype_def)
  show ?thesis
    using assms b
    by (simp add: dtype_specific_binary_def Let_def nan_series_def is_timedelta64_ns_dtype_def
        is_timedelta64_dtype_def)
qed

lemma dtype_specific_binary_numeric_string:
  "s_dtype left = Int64 \<Longrightarrow> s_dtype right = Object \<Longrightarrow>
   dtype_specific_binary left right numerics datetimes bools strings categoricals intervals ''ignore'' =
     Inr (Warned ''do not have comparable dtypes, returning NaNs'' (nan_series (s_index right)))
   \<and> dtype_specific_binary left right numerics datetimes bools strings categoricals intervals ''raise'' =
     Inl (ValueError ''left and right do not have matching supported dtypes'')"
  by (simp add: dtype_specific_binary_def Let_def is_numeric_dtype_def is_datetime64_any_dtype_def
      is_timedelta64_dtype_def is_timedelta64_ns_dtype_def is_bool_dtype_def is_string_dtype_def
      is_categorical_dtype_def is_interval_dtype_def)

lemma dtype_specific_binary_bool:
  "s_dtype left = Bool \<Longrightarrow> s_dtype right = Bool \<Longrightarrow>
   dtype_specific_binary left right numerics datetimes bools strings categoricals intervals errors =
     Inr (Returned (numerics left right))"
  by (simp add: dtype_specific_binary_def Let_def is_numeric_dtype_def)

text \<open>
  C8. For two boolean columns the function that is called is \<open>numerics\<close>, not
  \<open>bools\<close>: a boolean dtype passes \<open>is_numeric_dtype\<close>, which is tested first.
\<close>

theorem dtype_specific_binary_bool_columns:
  "dtype_specific_binary ex_flags ex_flags numerics datetimes bools strings categoricals intervals
     errors = Inr (Returned (numerics ex_flags ex_flags))"
  by (simp add: dtype_specific_binary_bool ex_flags_def)

end
